theory Spec2Isabelle
  imports Complex_Main
begin

section \<open>Numbers, colours and palettes\<close>

text \<open>
  The TypeScript sources compute on \<open>number\<close>. The model reads a \<open>number\<close> as a
  \<^typ>\<open>real\<close>: comparisons and the steps \<open>tone + 1.0\<close>, \<open>tone - 1.0\<close> are exact, and
  neither rounding nor \<open>NaN\<close> is represented. Every statement below is about the control
  flow and the tables of the sources, not about rounding.

  \<open>Hct\<close> (hct/hct.ts) is a colour given by hue, chroma and tone. \<open>TonalPalette\<close>
  (palettes/tonal_palette.ts) carries a hue, a chroma and a key colour.
\<close>

record hct =
  hue :: real
  chroma :: real
  tone :: real

record tonal_palette =
  hue :: real
  chroma :: real
  keyColor :: hct

text \<open>\<open>SpecVersion\<close> is the string union \<open>'2021' | '2025'\<close>.\<close>

datatype spec_version = V2021 | V2025

section \<open>The scheme\<close>

text \<open>
  Interface \<open>DynamicSchemeOptions\<close>, the argument of the constructor; a field marked \<open>?\<close> is
  an option.
\<close>

record scheme_options =
  sourceColorHct :: hct
  contrastLevel :: real
  isDark :: bool
  specVersion :: "spec_version option"
  primaryPalette :: "tonal_palette option"
  secondaryPalette :: "tonal_palette option"
  tertiaryPalette :: "tonal_palette option"
  neutralPalette :: "tonal_palette option"
  neutralVariantPalette :: "tonal_palette option"
  errorPalette :: "tonal_palette option"

text \<open>
  The fields of class \<open>DynamicScheme\<close>. Its field \<open>colors\<close> is always
  \<open>new MaterialDynamicColors()\<close>, built without arguments; it is not a field of the record
  but a parameter of the getters that read it (see \<open>material_dynamic_colors\<close> below).
\<close>

record scheme =
  sourceColorHct :: hct
  sourceColorArgb :: int
  contrastLevel :: real
  isDark :: bool
  specVersion :: spec_version
  primaryPalette :: tonal_palette
  secondaryPalette :: tonal_palette
  tertiaryPalette :: tonal_palette
  neutralPalette :: tonal_palette
  neutralVariantPalette :: tonal_palette
  errorPalette :: tonal_palette

section \<open>Roles and dynamic colours\<close>

text \<open>
  One constructor per role of interface \<open>ColorSpecDelegate\<close> (color_spec.ts): its methods
  without parameters, each returning the colour of a role. In the sources a colour refers to other colours through closures that call the
  delegate again (\<open>(s) => this.highestSurface(s)\<close>,
  \<open>new ToneDeltaPair(this.primaryContainer(), this.primary(), ...)\<close>); \<open>primary\<close> refers to
  itself in this way. The model keeps such a reference as the \<open>role\<close> whose method is called,
  and the catalogue \<open>colorSpec2025\<close> below maps a role back to its colour.
\<close>

datatype role =
    PrimaryPaletteKeyColor | SecondaryPaletteKeyColor | TertiaryPaletteKeyColor
  | NeutralPaletteKeyColor | NeutralVariantPaletteKeyColor | ErrorPaletteKeyColor
  | Background | OnBackground | Surface | SurfaceDim | SurfaceBright
  | SurfaceContainerLowest | SurfaceContainerLow | SurfaceContainer
  | SurfaceContainerHigh | SurfaceContainerHighest | OnSurface | SurfaceVariant
  | OnSurfaceVariant | InverseSurface | InverseOnSurface | Outline | OutlineVariant
  | Shadow | Scrim | SurfaceTint
  | Primary | PrimaryDim | OnPrimary | PrimaryContainer | OnPrimaryContainer
  | InversePrimary
  | Secondary | SecondaryDim | OnSecondary | SecondaryContainer | OnSecondaryContainer
  | Tertiary | TertiaryDim | OnTertiary | TertiaryContainer | OnTertiaryContainer
  | Error | ErrorDim | OnError | ErrorContainer | OnErrorContainer
  | PrimaryFixed | PrimaryFixedDim | OnPrimaryFixed | OnPrimaryFixedVariant
  | SecondaryFixed | SecondaryFixedDim | OnSecondaryFixed | OnSecondaryFixedVariant
  | TertiaryFixed | TertiaryFixedDim | OnTertiaryFixed | OnTertiaryFixedVariant

text \<open>\<open>new ContrastCurve(low, normal, medium, high)\<close>.\<close>

record contrast_curve =
  low :: real
  normal :: real
  medium :: real
  high :: real

text \<open>
  \<open>new ToneDeltaPair(roleA, roleB, delta, polarity, stayTogether, constraint)\<close>; polarity
  and constraint are string literals in the sources.
\<close>

datatype tone_polarity = Darker | Lighter | RelativeDarker | RelativeLighter

datatype delta_constraint = Exact | Nearer | Farther

record tone_delta_pair =
  roleA :: role
  roleB :: role
  delta :: real
  polarity :: tone_polarity
  stayTogether :: bool
  constraint :: delta_constraint

text \<open>
  The options object handed to \<open>DynamicColor.fromPalette\<close>: \<open>name\<close> and \<open>palette\<close> are
  always given, \<open>isBackground\<close> is \<open>False\<close> when left out, and every other selector is
  \<open>None\<close> when the sources leave it out.
\<close>

record dynamic_color =
  name :: string
  palette :: "scheme \<Rightarrow> tonal_palette"
  tone :: "(scheme \<Rightarrow> real) option"
  isBackground :: bool
  chromaMultiplier :: "(scheme \<Rightarrow> real) option"
  background :: "(scheme \<Rightarrow> role) option"
  contrastCurve :: "(scheme \<Rightarrow> contrast_curve option) option"
  toneDeltaPair :: "(scheme \<Rightarrow> tone_delta_pair option) option"

section \<open>External capabilities\<close>

text \<open>
  Functions of modules that are not among the sources, taken as parameters:
  \<open>Hct.from\<close>, \<open>Hct.toInt\<close>, \<open>Hct.isYellow\<close>, \<open>Hct.isBlue\<close> (hct/hct.ts),
  \<open>math.sanitizeDegreesDouble\<close> (utils/math_utils.ts), the key colour that
  \<open>TonalPalette.fromHueAndChroma\<close> computes, and \<open>DynamicColor.getTone\<close> and
  \<open>DynamicColor.getInitialToneFromBackground\<close> (dynamic_color.ts). \<open>getTone\<close> is a method
  of a colour; here it takes the role of that colour.
\<close>

record ext =
  hctFrom :: "real \<Rightarrow> real \<Rightarrow> real \<Rightarrow> hct"
  hctToInt :: "hct \<Rightarrow> int"
  isYellow :: "real \<Rightarrow> bool"
  isBlue :: "real \<Rightarrow> bool"
  sanitizeDegreesDouble :: "real \<Rightarrow> real"
  keyColorOf :: "real \<Rightarrow> real \<Rightarrow> hct"
  getTone :: "role \<Rightarrow> scheme \<Rightarrow> real"
  getInitialToneFromBackground :: "(scheme \<Rightarrow> role) \<Rightarrow> scheme \<Rightarrow> real"

text \<open>
  Modelled from the spec: \<open>math.clampDouble(min, max, input)\<close> of utils/math_utils.ts, which
  is not among the sources. Section 4.5: "Clamp the result to a caller-given
  [lowerBound, upperBound] window".
\<close>

definition clampDouble :: "real \<Rightarrow> real \<Rightarrow> real \<Rightarrow> real" where
  "clampDouble lo hi x = (if x < lo then lo else if x > hi then hi else x)"

section \<open>The chroma-tone search (color_spec_2025.ts)\<close>

text \<open>\<open>byDecreasingTone ? -1.0 : 1.0\<close>\<close>

definition toneStep :: "bool \<Rightarrow> real" where
  "toneStep byDecreasingTone = (if byDecreasingTone then - 1 else 1)"

text \<open>
  The \<open>while\<close> loop of \<open>findBestToneForChroma\<close>, on its three variables \<open>tone\<close>,
  \<open>bestCandidate\<close> and \<open>answer\<close>. The loop runs while the best candidate's chroma is below
  the target chroma; the test of the range comes before the step, so the tone that leaves
  \<open>[0, 100]\<close> is still sampled.
\<close>

function findBestLoop :: "ext \<Rightarrow> real \<Rightarrow> real \<Rightarrow> bool \<Rightarrow> real \<Rightarrow> hct \<Rightarrow> real \<Rightarrow> real" where
  "findBestLoop K h c dec tn bestCandidate answer =
     (if hct.chroma bestCandidate < c then
        (if tn < 0 \<or> tn > 100 then answer
         else if hct.chroma bestCandidate < hct.chroma (hctFrom K h c (tn + toneStep dec))
         then findBestLoop K h c dec (tn + toneStep dec)
                (hctFrom K h c (tn + toneStep dec)) (tn + toneStep dec)
         else findBestLoop K h c dec (tn + toneStep dec) bestCandidate answer)
      else answer)"
  by pat_completeness auto
termination
proof (relation "measure (\<lambda>(K, h, c, dec, tn, b, a).
          if dec then nat (\<lfloor>tn\<rfloor> + 1) else nat (\<lfloor>100 - tn\<rfloor> + 1))")
  show "wf (measure (\<lambda>(K, h, c, dec, tn, b, a).
          if dec then nat (\<lfloor>tn\<rfloor> + 1) else nat (\<lfloor>100 - tn\<rfloor> + 1)))"
    by simp
next
  fix K :: ext and h c tn answer :: real and dec :: bool and bestCandidate :: hct
  assume "\<not> (tn < 0 \<or> tn > 100)"
  then have "0 \<le> \<lfloor>tn\<rfloor>" "0 \<le> \<lfloor>100 - tn\<rfloor>" by simp_all
  moreover have "\<lfloor>tn + - 1\<rfloor> = \<lfloor>tn\<rfloor> - 1" "\<lfloor>100 - (tn + 1)\<rfloor> = \<lfloor>100 - tn\<rfloor> - 1"
    by linarith+
  ultimately have "(if dec then nat (\<lfloor>tn + toneStep dec\<rfloor> + 1) else nat (\<lfloor>100 - (tn + toneStep dec)\<rfloor> + 1))
      < (if dec then nat (\<lfloor>tn\<rfloor> + 1) else nat (\<lfloor>100 - tn\<rfloor> + 1))"
    by (simp add: toneStep_def)
  then show "((K, h, c, dec, tn + toneStep dec, hctFrom K h c (tn + toneStep dec), tn + toneStep dec),
        (K, h, c, dec, tn, bestCandidate, answer))
      \<in> measure (\<lambda>(K, h, c, dec, tn, b, a).
          if dec then nat (\<lfloor>tn\<rfloor> + 1) else nat (\<lfloor>100 - tn\<rfloor> + 1))"
    and "((K, h, c, dec, tn + toneStep dec, bestCandidate, answer),
        (K, h, c, dec, tn, bestCandidate, answer))
      \<in> measure (\<lambda>(K, h, c, dec, tn, b, a).
          if dec then nat (\<lfloor>tn\<rfloor> + 1) else nat (\<lfloor>100 - tn\<rfloor> + 1))"
    by simp_all
qed

declare findBestLoop.simps [simp del]

definition findBestToneForChroma :: "ext \<Rightarrow> real \<Rightarrow> real \<Rightarrow> real \<Rightarrow> bool \<Rightarrow> real" where
  "findBestToneForChroma K h c tn byDecreasingTone =
     findBestLoop K h c byDecreasingTone tn (hctFrom K h c tn) tn"

text \<open>
  \<open>tMaxC(palette, lowerBound = 0, upperBound = 100, chromaMultiplier = 1)\<close> and
  \<open>tMinC(palette, lowerBound = 0, upperBound = 100)\<close>; a caller that leaves a parameter
  out passes its default.
\<close>

definition tMaxC :: "ext \<Rightarrow> tonal_palette \<Rightarrow> real \<Rightarrow> real \<Rightarrow> real \<Rightarrow> real" where
  "tMaxC K p lowerBound upperBound multiplier =
     clampDouble lowerBound upperBound
       (findBestToneForChroma K (tonal_palette.hue p) (tonal_palette.chroma p * multiplier) 100 True)"

definition tMinC :: "ext \<Rightarrow> tonal_palette \<Rightarrow> real \<Rightarrow> real \<Rightarrow> real" where
  "tMinC K p lowerBound upperBound =
     clampDouble lowerBound upperBound
       (findBestToneForChroma K (tonal_palette.hue p) (tonal_palette.chroma p) 0 False)"

text \<open>
  The sampled chroma at a tone, \<open>Hct.from(hue, chroma, tone).chroma\<close>, and the tone the
  search has reached after \<open>k\<close> steps from \<open>t0\<close>.
\<close>

definition sampled :: "ext \<Rightarrow> real \<Rightarrow> real \<Rightarrow> real \<Rightarrow> real" where
  "sampled K h c t = hct.chroma (hctFrom K h c t)"

definition visited :: "real \<Rightarrow> bool \<Rightarrow> nat \<Rightarrow> real" where
  "visited t0 dec k = t0 + toneStep dec * real k"

text \<open>
  The invariant of the loop after \<open>n\<close> steps from \<open>t0\<close>, for its variable \<open>answer\<close>:
  the answer is the first visited tone with the largest sampled chroma, and every tone
  visited before the current one is inside \<open>[0, 100]\<close> and sampled below the target.
\<close>

definition searchInv :: "ext \<Rightarrow> real \<Rightarrow> real \<Rightarrow> bool \<Rightarrow> real \<Rightarrow> nat \<Rightarrow> real \<Rightarrow> bool" where
  "searchInv K h c dec t0 n r =
     ((\<exists>j\<le>n. r = visited t0 dec j
          \<and> (\<forall>i<j. sampled K h c (visited t0 dec i) < sampled K h c r))
      \<and> (\<forall>i\<le>n. sampled K h c (visited t0 dec i) \<le> sampled K h c r)
      \<and> (\<forall>i<n. 0 \<le> visited t0 dec i \<and> visited t0 dec i \<le> 100
            \<and> sampled K h c (visited t0 dec i) < c))"

text \<open>
  The search as section 4.5 of the spec words it, for comparison with the code: "step by 1
  unit toward the opposite end, keep the best tone seen while sampled chroma at the new tone
  strictly exceeds the current best, stop at the array bound or when improvement ceases".
\<close>

function claimedLoop :: "ext \<Rightarrow> real \<Rightarrow> real \<Rightarrow> bool \<Rightarrow> real \<Rightarrow> hct \<Rightarrow> real \<Rightarrow> real" where
  "claimedLoop K h c dec tn bestCandidate answer =
     (if tn < 0 \<or> tn > 100 then answer
      else if hct.chroma bestCandidate < hct.chroma (hctFrom K h c (tn + toneStep dec))
      then claimedLoop K h c dec (tn + toneStep dec)
             (hctFrom K h c (tn + toneStep dec)) (tn + toneStep dec)
      else answer)"
  by pat_completeness auto
termination
proof (relation "measure (\<lambda>(K, h, c, dec, tn, b, a).
          if dec then nat (\<lfloor>tn\<rfloor> + 1) else nat (\<lfloor>100 - tn\<rfloor> + 1))")
  show "wf (measure (\<lambda>(K, h, c, dec, tn, b, a).
          if dec then nat (\<lfloor>tn\<rfloor> + 1) else nat (\<lfloor>100 - tn\<rfloor> + 1)))"
    by simp
next
  fix K :: ext and h c tn answer :: real and dec :: bool and bestCandidate :: hct
  assume "\<not> (tn < 0 \<or> tn > 100)"
  then have "0 \<le> \<lfloor>tn\<rfloor>" "0 \<le> \<lfloor>100 - tn\<rfloor>" by simp_all
  moreover have "\<lfloor>tn + - 1\<rfloor> = \<lfloor>tn\<rfloor> - 1" "\<lfloor>100 - (tn + 1)\<rfloor> = \<lfloor>100 - tn\<rfloor> - 1"
    by linarith+
  ultimately have "(if dec then nat (\<lfloor>tn + toneStep dec\<rfloor> + 1) else nat (\<lfloor>100 - (tn + toneStep dec)\<rfloor> + 1))
      < (if dec then nat (\<lfloor>tn\<rfloor> + 1) else nat (\<lfloor>100 - tn\<rfloor> + 1))"
    by (simp add: toneStep_def)
  then show "((K, h, c, dec, tn + toneStep dec, hctFrom K h c (tn + toneStep dec), tn + toneStep dec),
        (K, h, c, dec, tn, bestCandidate, answer))
      \<in> measure (\<lambda>(K, h, c, dec, tn, b, a).
          if dec then nat (\<lfloor>tn\<rfloor> + 1) else nat (\<lfloor>100 - tn\<rfloor> + 1))"
    by simp
qed

declare claimedLoop.simps [simp del]

definition findBestToneForChroma_claimed :: "ext \<Rightarrow> real \<Rightarrow> real \<Rightarrow> real \<Rightarrow> bool \<Rightarrow> real" where
  "findBestToneForChroma_claimed K h c tn byDecreasingTone =
     claimedLoop K h c byDecreasingTone tn (hctFrom K h c tn) tn"

text \<open>\<open>getCurve(defaultContrast)\<close>\<close>

definition getCurve :: "real \<Rightarrow> contrast_curve" where
  "getCurve defaultContrast =
     (if defaultContrast = 1.5 then \<lparr>low = 1.5, normal = 1.5, medium = 3, high = 4.5\<rparr>
      else if defaultContrast = 3 then \<lparr>low = 3, normal = 3, medium = 4.5, high = 7\<rparr>
      else if defaultContrast = 4.5 then \<lparr>low = 4.5, normal = 4.5, medium = 7, high = 11\<rparr>
      else if defaultContrast = 6 then \<lparr>low = 6, normal = 6, medium = 7, high = 11\<rparr>
      else if defaultContrast = 7 then \<lparr>low = 7, normal = 7, medium = 11, high = 21\<rparr>
      else if defaultContrast = 9 then \<lparr>low = 9, normal = 9, medium = 11, high = 21\<rparr>
      else if defaultContrast = 11 then \<lparr>low = 11, normal = 11, medium = 21, high = 21\<rparr>
      else if defaultContrast = 21 then \<lparr>low = 21, normal = 21, medium = 21, high = 21\<rparr>
      else \<lparr>low = defaultContrast, normal = defaultContrast, medium = 7, high = 21\<rparr>)"

section \<open>The role catalogue of the 2025 spec (class ColorSpecDelegateImpl2025)\<close>

text \<open>
  \<open>DynamicColor.fromPalette({name, palette})\<close> with nothing else given. Each method of the
  delegate below is this record with the selectors that the method lists.
\<close>

definition colorOf :: "string \<Rightarrow> (scheme \<Rightarrow> tonal_palette) \<Rightarrow> dynamic_color" where
  "colorOf n p = \<lparr>name = n, palette = p, tone = None, isBackground = False,
     chromaMultiplier = None, background = None, contrastCurve = None, toneDeltaPair = None\<rparr>"

text \<open>
  \<open>highestSurface(s)\<close> returns \<open>this.surfaceBright()\<close> in dark mode and
  \<open>this.surfaceDim()\<close> otherwise; like every reference to a colour it is kept as the role.
\<close>

definition highestSurface :: "scheme \<Rightarrow> role" where
  "highestSurface s = (if isDark s then SurfaceBright else SurfaceDim)"

subsection \<open>Main palettes\<close>

definition primaryPaletteKeyColor :: dynamic_color where
  "primaryPaletteKeyColor = (colorOf ''primary_palette_key_color'' primaryPalette)
     \<lparr>dynamic_color.tone := Some (\<lambda>s. hct.tone (keyColor (primaryPalette s)))\<rparr>"

definition secondaryPaletteKeyColor :: dynamic_color where
  "secondaryPaletteKeyColor = (colorOf ''secondary_palette_key_color'' secondaryPalette)
     \<lparr>dynamic_color.tone := Some (\<lambda>s. hct.tone (keyColor (secondaryPalette s)))\<rparr>"

definition tertiaryPaletteKeyColor :: dynamic_color where
  "tertiaryPaletteKeyColor = (colorOf ''tertiary_palette_key_color'' tertiaryPalette)
     \<lparr>dynamic_color.tone := Some (\<lambda>s. hct.tone (keyColor (tertiaryPalette s)))\<rparr>"

definition neutralPaletteKeyColor :: dynamic_color where
  "neutralPaletteKeyColor = (colorOf ''neutral_palette_key_color'' neutralPalette)
     \<lparr>dynamic_color.tone := Some (\<lambda>s. hct.tone (keyColor (neutralPalette s)))\<rparr>"

definition neutralVariantPaletteKeyColor :: dynamic_color where
  "neutralVariantPaletteKeyColor =
     (colorOf ''neutral_variant_palette_key_color'' neutralVariantPalette)
     \<lparr>dynamic_color.tone := Some (\<lambda>s. hct.tone (keyColor (neutralVariantPalette s)))\<rparr>"

definition errorPaletteKeyColor :: dynamic_color where
  "errorPaletteKeyColor = (colorOf ''error_palette_key_color'' errorPalette)
     \<lparr>dynamic_color.tone := Some (\<lambda>s. hct.tone (keyColor (errorPalette s)))\<rparr>"

subsection \<open>Surfaces\<close>

definition surface :: "ext \<Rightarrow> dynamic_color" where
  "surface K = (colorOf ''surface'' neutralPalette)
     \<lparr>dynamic_color.tone := Some (\<lambda>s.
        if isDark s then 4
        else if isYellow K (tonal_palette.hue (neutralPalette s)) then 99 else 98),
      isBackground := True\<rparr>"

definition surfaceDim :: "ext \<Rightarrow> dynamic_color" where
  "surfaceDim K = (colorOf ''surface_dim'' neutralPalette)
     \<lparr>dynamic_color.tone := Some (\<lambda>s.
        if isDark s then 4
        else if isYellow K (tonal_palette.hue (neutralPalette s)) then 90 else 87),
      isBackground := True,
      chromaMultiplier := Some (\<lambda>s. if \<not> isDark s then 2.5 else 1)\<rparr>"

definition surfaceBright :: "ext \<Rightarrow> dynamic_color" where
  "surfaceBright K = (colorOf ''surface_bright'' neutralPalette)
     \<lparr>dynamic_color.tone := Some (\<lambda>s.
        if isDark s then 18
        else if isYellow K (tonal_palette.hue (neutralPalette s)) then 99 else 98),
      isBackground := True,
      chromaMultiplier := Some (\<lambda>s. if isDark s then 2.5 else 1)\<rparr>"

definition surfaceContainerLowest :: dynamic_color where
  "surfaceContainerLowest = (colorOf ''surface_container_lowest'' neutralPalette)
     \<lparr>dynamic_color.tone := Some (\<lambda>s. if isDark s then 0 else 100),
      isBackground := True\<rparr>"

definition surfaceContainerLow :: "ext \<Rightarrow> dynamic_color" where
  "surfaceContainerLow K = (colorOf ''surface_container_low'' neutralPalette)
     \<lparr>dynamic_color.tone := Some (\<lambda>s.
        if isDark s then 6
        else if isYellow K (tonal_palette.hue (neutralPalette s)) then 98 else 96),
      isBackground := True,
      chromaMultiplier := Some (\<lambda>s. 1.3)\<rparr>"

definition surfaceContainer :: "ext \<Rightarrow> dynamic_color" where
  "surfaceContainer K = (colorOf ''surface_container'' neutralPalette)
     \<lparr>dynamic_color.tone := Some (\<lambda>s.
        if isDark s then 9
        else if isYellow K (tonal_palette.hue (neutralPalette s)) then 96 else 94),
      isBackground := True,
      chromaMultiplier := Some (\<lambda>s. 1.6)\<rparr>"

definition surfaceContainerHigh :: "ext \<Rightarrow> dynamic_color" where
  "surfaceContainerHigh K = (colorOf ''surface_container_high'' neutralPalette)
     \<lparr>dynamic_color.tone := Some (\<lambda>s.
        if isDark s then 12
        else if isYellow K (tonal_palette.hue (neutralPalette s)) then 94 else 92),
      isBackground := True,
      chromaMultiplier := Some (\<lambda>s. 1.9)\<rparr>"

definition surfaceContainerHighest :: "ext \<Rightarrow> dynamic_color" where
  "surfaceContainerHighest K = (colorOf ''surface_container_highest'' neutralPalette)
     \<lparr>dynamic_color.tone := Some (\<lambda>s.
        if isDark s then 15
        else if isYellow K (tonal_palette.hue (neutralPalette s)) then 92 else 90),
      isBackground := True,
      chromaMultiplier := Some (\<lambda>s. 2.2)\<rparr>"

definition onSurface :: "ext \<Rightarrow> dynamic_color" where
  "onSurface K = (colorOf ''on_surface'' neutralPalette)
     \<lparr>dynamic_color.tone := Some (\<lambda>s. getInitialToneFromBackground K (\<lambda>s. highestSurface s) s),
      chromaMultiplier := Some (\<lambda>s. 2.2),
      background := Some (\<lambda>s. highestSurface s),
      contrastCurve := Some (\<lambda>s. Some (if isDark s then getCurve 11 else getCurve 9))\<rparr>"

definition onSurfaceVariant :: dynamic_color where
  "onSurfaceVariant = (colorOf ''on_surface_variant'' neutralPalette)
     \<lparr>chromaMultiplier := Some (\<lambda>s. 2.2),
      background := Some (\<lambda>s. highestSurface s),
      contrastCurve := Some (\<lambda>s. Some (if isDark s then getCurve 6 else getCurve 4.5))\<rparr>"

definition outline :: dynamic_color where
  "outline = (colorOf ''outline'' neutralPalette)
     \<lparr>chromaMultiplier := Some (\<lambda>s. 2.2),
      background := Some (\<lambda>s. highestSurface s),
      contrastCurve := Some (\<lambda>s. Some (getCurve 3))\<rparr>"

definition outlineVariant :: dynamic_color where
  "outlineVariant = (colorOf ''outline_variant'' neutralPalette)
     \<lparr>chromaMultiplier := Some (\<lambda>s. 2.2),
      background := Some (\<lambda>s. highestSurface s),
      contrastCurve := Some (\<lambda>s. Some (getCurve 1.5))\<rparr>"

definition inverseSurface :: dynamic_color where
  "inverseSurface = (colorOf ''inverse_surface'' neutralPalette)
     \<lparr>dynamic_color.tone := Some (\<lambda>s. if isDark s then 98 else 4),
      isBackground := True\<rparr>"

definition inverseOnSurface :: dynamic_color where
  "inverseOnSurface = (colorOf ''inverse_on_surface'' neutralPalette)
     \<lparr>background := Some (\<lambda>s. InverseSurface),
      contrastCurve := Some (\<lambda>s. Some (getCurve 7))\<rparr>"

definition shadow :: dynamic_color where
  "shadow = (colorOf ''shadow'' neutralPalette)\<lparr>dynamic_color.tone := Some (\<lambda>s. 0)\<rparr>"

definition scrim :: dynamic_color where
  "scrim = (colorOf ''scrim'' neutralPalette)\<lparr>dynamic_color.tone := Some (\<lambda>s. 0)\<rparr>"

subsection \<open>Primaries\<close>

definition primary :: dynamic_color where
  "primary = (colorOf ''primary'' primaryPalette)
     \<lparr>dynamic_color.tone := Some (\<lambda>s. if isDark s then 80 else 40),
      isBackground := True,
      background := Some (\<lambda>s. highestSurface s),
      contrastCurve := Some (\<lambda>s. Some (getCurve 4.5)),
      toneDeltaPair := Some (\<lambda>s. Some \<lparr>roleA = PrimaryContainer, roleB = Primary, delta = 5,
        polarity = RelativeLighter, stayTogether = True, constraint = Farther\<rparr>)\<rparr>"

definition primaryDim :: dynamic_color where
  "primaryDim = (colorOf ''primary_dim'' primaryPalette)
     \<lparr>dynamic_color.tone := Some (\<lambda>s. 85),
      isBackground := True,
      background := Some (\<lambda>s. SurfaceContainerHigh),
      contrastCurve := Some (\<lambda>s. Some (getCurve 4.5)),
      toneDeltaPair := Some (\<lambda>s. Some \<lparr>roleA = PrimaryDim, roleB = Primary, delta = 5,
        polarity = Darker, stayTogether = True, constraint = Farther\<rparr>)\<rparr>"

definition onPrimary :: dynamic_color where
  "onPrimary = (colorOf ''on_primary'' primaryPalette)
     \<lparr>background := Some (\<lambda>s. Primary),
      contrastCurve := Some (\<lambda>s. Some (getCurve 6))\<rparr>"

definition primaryContainer :: dynamic_color where
  "primaryContainer = (colorOf ''primary_container'' primaryPalette)
     \<lparr>dynamic_color.tone := Some (\<lambda>s. if isDark s then 30 else 90),
      isBackground := True,
      background := Some (\<lambda>s. highestSurface s),
      toneDeltaPair := Some (\<lambda>s. None),
      contrastCurve := Some (\<lambda>s. if contrastLevel s > 0 then Some (getCurve 1.5) else None)\<rparr>"

definition onPrimaryContainer :: dynamic_color where
  "onPrimaryContainer = (colorOf ''on_primary_container'' primaryPalette)
     \<lparr>background := Some (\<lambda>s. PrimaryContainer),
      contrastCurve := Some (\<lambda>s. Some (getCurve 6))\<rparr>"

definition primaryFixed :: "ext \<Rightarrow> dynamic_color" where
  "primaryFixed K = (colorOf ''primary_fixed'' primaryPalette)
     \<lparr>dynamic_color.tone := Some (\<lambda>s.
        getTone K PrimaryContainer (s\<lparr>isDark := False, contrastLevel := 0\<rparr>)),
      isBackground := True,
      background := Some (\<lambda>s. highestSurface s),
      contrastCurve := Some (\<lambda>s. if contrastLevel s > 0 then Some (getCurve 1.5) else None)\<rparr>"

definition primaryFixedDim :: "ext \<Rightarrow> dynamic_color" where
  "primaryFixedDim K = (colorOf ''primary_fixed_dim'' primaryPalette)
     \<lparr>dynamic_color.tone := Some (\<lambda>s. getTone K PrimaryFixed s),
      isBackground := True,
      toneDeltaPair := Some (\<lambda>s. Some \<lparr>roleA = PrimaryFixedDim, roleB = PrimaryFixed, delta = 5,
        polarity = Darker, stayTogether = True, constraint = Exact\<rparr>)\<rparr>"

definition onPrimaryFixed :: dynamic_color where
  "onPrimaryFixed = (colorOf ''on_primary_fixed'' primaryPalette)
     \<lparr>background := Some (\<lambda>s. PrimaryFixedDim),
      contrastCurve := Some (\<lambda>s. Some (getCurve 7))\<rparr>"

definition onPrimaryFixedVariant :: dynamic_color where
  "onPrimaryFixedVariant = (colorOf ''on_primary_fixed_variant'' primaryPalette)
     \<lparr>background := Some (\<lambda>s. PrimaryFixedDim),
      contrastCurve := Some (\<lambda>s. Some (getCurve 4.5))\<rparr>"

definition inversePrimary :: "ext \<Rightarrow> dynamic_color" where
  "inversePrimary K = (colorOf ''inverse_primary'' primaryPalette)
     \<lparr>dynamic_color.tone := Some (\<lambda>s. tMaxC K (primaryPalette s) 0 100 1),
      background := Some (\<lambda>s. InverseSurface),
      contrastCurve := Some (\<lambda>s. Some (getCurve 6))\<rparr>"

subsection \<open>Secondaries\<close>

definition secondary :: "ext \<Rightarrow> dynamic_color" where
  "secondary K = (colorOf ''secondary'' secondaryPalette)
     \<lparr>dynamic_color.tone := Some (\<lambda>s. if isDark s then tMinC K (secondaryPalette s) 0 98
        else tMaxC K (secondaryPalette s) 0 100 1),
      isBackground := True,
      background := Some (\<lambda>s. highestSurface s),
      contrastCurve := Some (\<lambda>s. Some (getCurve 4.5)),
      toneDeltaPair := Some (\<lambda>s. Some \<lparr>roleA = SecondaryContainer, roleB = Secondary, delta = 5,
        polarity = RelativeLighter, stayTogether = True, constraint = Farther\<rparr>)\<rparr>"

definition secondaryDim :: dynamic_color where
  "secondaryDim = (colorOf ''secondary_dim'' secondaryPalette)
     \<lparr>dynamic_color.tone := Some (\<lambda>s. 85),
      isBackground := True,
      background := Some (\<lambda>s. SurfaceContainerHigh),
      contrastCurve := Some (\<lambda>s. Some (getCurve 4.5)),
      toneDeltaPair := Some (\<lambda>s. Some \<lparr>roleA = SecondaryDim, roleB = Secondary, delta = 5,
        polarity = Darker, stayTogether = True, constraint = Farther\<rparr>)\<rparr>"

definition onSecondary :: dynamic_color where
  "onSecondary = (colorOf ''on_secondary'' secondaryPalette)
     \<lparr>background := Some (\<lambda>s. Secondary),
      contrastCurve := Some (\<lambda>s. Some (getCurve 6))\<rparr>"

definition secondaryContainer :: dynamic_color where
  "secondaryContainer = (colorOf ''secondary_container'' secondaryPalette)
     \<lparr>dynamic_color.tone := Some (\<lambda>s. if isDark s then 25 else 90),
      isBackground := True,
      background := Some (\<lambda>s. highestSurface s),
      toneDeltaPair := Some (\<lambda>s. None),
      contrastCurve := Some (\<lambda>s. if contrastLevel s > 0 then Some (getCurve 1.5) else None)\<rparr>"

definition onSecondaryContainer :: dynamic_color where
  "onSecondaryContainer = (colorOf ''on_secondary_container'' secondaryPalette)
     \<lparr>background := Some (\<lambda>s. SecondaryContainer),
      contrastCurve := Some (\<lambda>s. Some (getCurve 6))\<rparr>"

definition secondaryFixed :: "ext \<Rightarrow> dynamic_color" where
  "secondaryFixed K = (colorOf ''secondary_fixed'' secondaryPalette)
     \<lparr>dynamic_color.tone := Some (\<lambda>s.
        getTone K SecondaryContainer (s\<lparr>isDark := False, contrastLevel := 0\<rparr>)),
      isBackground := True,
      background := Some (\<lambda>s. highestSurface s),
      contrastCurve := Some (\<lambda>s. if contrastLevel s > 0 then Some (getCurve 1.5) else None)\<rparr>"

definition secondaryFixedDim :: "ext \<Rightarrow> dynamic_color" where
  "secondaryFixedDim K = (colorOf ''secondary_fixed_dim'' secondaryPalette)
     \<lparr>dynamic_color.tone := Some (\<lambda>s. getTone K SecondaryFixed s),
      isBackground := True,
      toneDeltaPair := Some (\<lambda>s. Some \<lparr>roleA = SecondaryFixedDim, roleB = SecondaryFixed, delta = 5,
        polarity = Darker, stayTogether = True, constraint = Exact\<rparr>)\<rparr>"

definition onSecondaryFixed :: dynamic_color where
  "onSecondaryFixed = (colorOf ''on_secondary_fixed'' secondaryPalette)
     \<lparr>background := Some (\<lambda>s. SecondaryFixedDim),
      contrastCurve := Some (\<lambda>s. Some (getCurve 7))\<rparr>"

definition onSecondaryFixedVariant :: dynamic_color where
  "onSecondaryFixedVariant = (colorOf ''on_secondary_fixed_variant'' secondaryPalette)
     \<lparr>background := Some (\<lambda>s. SecondaryFixedDim),
      contrastCurve := Some (\<lambda>s. Some (getCurve 4.5))\<rparr>"

subsection \<open>Tertiaries\<close>

definition tertiary :: "ext \<Rightarrow> dynamic_color" where
  "tertiary K = (colorOf ''tertiary'' tertiaryPalette)
     \<lparr>dynamic_color.tone := Some (\<lambda>s. if isDark s then tMaxC K (tertiaryPalette s) 0 98 1
        else tMaxC K (tertiaryPalette s) 0 100 1),
      isBackground := True,
      background := Some (\<lambda>s. highestSurface s),
      contrastCurve := Some (\<lambda>s. Some (getCurve 4.5)),
      toneDeltaPair := Some (\<lambda>s. Some \<lparr>roleA = TertiaryContainer, roleB = Tertiary, delta = 5,
        polarity = RelativeLighter, stayTogether = True, constraint = Farther\<rparr>)\<rparr>"

definition tertiaryDim :: "ext \<Rightarrow> dynamic_color" where
  "tertiaryDim K = (colorOf ''tertiary_dim'' tertiaryPalette)
     \<lparr>dynamic_color.tone := Some (\<lambda>s. tMaxC K (tertiaryPalette s) 0 100 1),
      isBackground := True,
      background := Some (\<lambda>s. SurfaceContainerHigh),
      contrastCurve := Some (\<lambda>s. Some (getCurve 4.5)),
      toneDeltaPair := Some (\<lambda>s. Some \<lparr>roleA = TertiaryDim, roleB = Tertiary, delta = 5,
        polarity = Darker, stayTogether = True, constraint = Farther\<rparr>)\<rparr>"

definition onTertiary :: dynamic_color where
  "onTertiary = (colorOf ''on_tertiary'' tertiaryPalette)
     \<lparr>background := Some (\<lambda>s. Tertiary),
      contrastCurve := Some (\<lambda>s. Some (getCurve 6))\<rparr>"

definition tertiaryContainer :: "ext \<Rightarrow> dynamic_color" where
  "tertiaryContainer K = (colorOf ''tertiary_container'' tertiaryPalette)
     \<lparr>dynamic_color.tone := Some (\<lambda>s. if isDark s then tMaxC K (tertiaryPalette s) 0 93 1
        else tMaxC K (tertiaryPalette s) 0 96 1),
      isBackground := True,
      background := Some (\<lambda>s. highestSurface s),
      toneDeltaPair := Some (\<lambda>s. None),
      contrastCurve := Some (\<lambda>s. if contrastLevel s > 0 then Some (getCurve 1.5) else None)\<rparr>"

definition onTertiaryContainer :: dynamic_color where
  "onTertiaryContainer = (colorOf ''on_tertiary_container'' tertiaryPalette)
     \<lparr>background := Some (\<lambda>s. TertiaryContainer),
      contrastCurve := Some (\<lambda>s. Some (getCurve 6))\<rparr>"

definition tertiaryFixed :: "ext \<Rightarrow> dynamic_color" where
  "tertiaryFixed K = (colorOf ''tertiary_fixed'' tertiaryPalette)
     \<lparr>dynamic_color.tone := Some (\<lambda>s.
        getTone K TertiaryContainer (s\<lparr>isDark := False, contrastLevel := 0\<rparr>)),
      isBackground := True,
      background := Some (\<lambda>s. highestSurface s),
      contrastCurve := Some (\<lambda>s. if contrastLevel s > 0 then Some (getCurve 1.5) else None)\<rparr>"

definition tertiaryFixedDim :: "ext \<Rightarrow> dynamic_color" where
  "tertiaryFixedDim K = (colorOf ''tertiary_fixed_dim'' tertiaryPalette)
     \<lparr>dynamic_color.tone := Some (\<lambda>s. getTone K TertiaryFixed s),
      isBackground := True,
      toneDeltaPair := Some (\<lambda>s. Some \<lparr>roleA = TertiaryFixedDim, roleB = TertiaryFixed, delta = 5,
        polarity = Darker, stayTogether = True, constraint = Exact\<rparr>)\<rparr>"

definition onTertiaryFixed :: dynamic_color where
  "onTertiaryFixed = (colorOf ''on_tertiary_fixed'' tertiaryPalette)
     \<lparr>background := Some (\<lambda>s. TertiaryFixedDim),
      contrastCurve := Some (\<lambda>s. Some (getCurve 7))\<rparr>"

definition onTertiaryFixedVariant :: dynamic_color where
  "onTertiaryFixedVariant = (colorOf ''on_tertiary_fixed_variant'' tertiaryPalette)
     \<lparr>background := Some (\<lambda>s. TertiaryFixedDim),
      contrastCurve := Some (\<lambda>s. Some (getCurve 4.5))\<rparr>"

subsection \<open>Errors\<close>

definition error :: "ext \<Rightarrow> dynamic_color" where
  "error K = (colorOf ''error'' errorPalette)
     \<lparr>dynamic_color.tone := Some (\<lambda>s. if isDark s then tMinC K (errorPalette s) 0 98
        else tMaxC K (errorPalette s) 0 100 1),
      isBackground := True,
      background := Some (\<lambda>s. highestSurface s),
      contrastCurve := Some (\<lambda>s. Some (getCurve 4.5)),
      toneDeltaPair := Some (\<lambda>s. Some \<lparr>roleA = ErrorContainer, roleB = Error, delta = 5,
        polarity = RelativeLighter, stayTogether = True, constraint = Farther\<rparr>)\<rparr>"

definition errorDim :: "ext \<Rightarrow> dynamic_color" where
  "errorDim K = (colorOf ''error_dim'' errorPalette)
     \<lparr>dynamic_color.tone := Some (\<lambda>s. tMinC K (errorPalette s) 0 100),
      isBackground := True,
      background := Some (\<lambda>s. SurfaceContainerHigh),
      contrastCurve := Some (\<lambda>s. Some (getCurve 4.5)),
      toneDeltaPair := Some (\<lambda>s. Some \<lparr>roleA = ErrorDim, roleB = Error, delta = 5,
        polarity = Darker, stayTogether = True, constraint = Farther\<rparr>)\<rparr>"

definition onError :: dynamic_color where
  "onError = (colorOf ''on_error'' errorPalette)
     \<lparr>background := Some (\<lambda>s. Error),
      contrastCurve := Some (\<lambda>s. Some (getCurve 6))\<rparr>"

definition errorContainer :: "ext \<Rightarrow> dynamic_color" where
  "errorContainer K = (colorOf ''error_container'' errorPalette)
     \<lparr>dynamic_color.tone := Some (\<lambda>s. if isDark s then tMinC K (errorPalette s) 30 93
        else tMaxC K (errorPalette s) 0 90 1),
      isBackground := True,
      background := Some (\<lambda>s. highestSurface s),
      toneDeltaPair := Some (\<lambda>s. None),
      contrastCurve := Some (\<lambda>s. if contrastLevel s > 0 then Some (getCurve 1.5) else None)\<rparr>"

definition onErrorContainer :: dynamic_color where
  "onErrorContainer = (colorOf ''on_error_container'' errorPalette)
     \<lparr>background := Some (\<lambda>s. ErrorContainer),
      contrastCurve := Some (\<lambda>s. Some (getCurve 4.5))\<rparr>"

subsection \<open>Remapped colours\<close>

text \<open>
  Modelled from the spec: \<open>DynamicColor.clone()\<close> (dynamic_color.ts is not among the
  sources). Section 4.1: the remapped roles are "each an alias copying another role's resolved
  node under a new name"; the copy has every selector of the original.
\<close>

definition clone :: "dynamic_color \<Rightarrow> dynamic_color" where
  "clone d = d"

text \<open>\<open>Object.assign(this.surfaceContainerHighest().clone(), {name: 'surface_variant'})\<close>\<close>

definition surfaceVariant :: "ext \<Rightarrow> dynamic_color" where
  "surfaceVariant K = (clone (surfaceContainerHighest K))\<lparr>name := ''surface_variant''\<rparr>"

definition surfaceTint :: dynamic_color where
  "surfaceTint = (clone primary)\<lparr>name := ''surface_tint''\<rparr>"

definition background2025 :: "ext \<Rightarrow> dynamic_color" where
  "background2025 K = (clone (surface K))\<lparr>name := ''background''\<rparr>"

definition onBackground :: "ext \<Rightarrow> dynamic_color" where
  "onBackground K = (clone (onSurface K))\<lparr>name := ''on_background''\<rparr>"

subsection \<open>The catalogue\<close>

text \<open>The colour that the delegate's method for a role returns.\<close>

fun colorSpec2025 :: "ext \<Rightarrow> role \<Rightarrow> dynamic_color" where
  "colorSpec2025 K PrimaryPaletteKeyColor = primaryPaletteKeyColor"
| "colorSpec2025 K SecondaryPaletteKeyColor = secondaryPaletteKeyColor"
| "colorSpec2025 K TertiaryPaletteKeyColor = tertiaryPaletteKeyColor"
| "colorSpec2025 K NeutralPaletteKeyColor = neutralPaletteKeyColor"
| "colorSpec2025 K NeutralVariantPaletteKeyColor = neutralVariantPaletteKeyColor"
| "colorSpec2025 K ErrorPaletteKeyColor = errorPaletteKeyColor"
| "colorSpec2025 K Background = background2025 K"
| "colorSpec2025 K OnBackground = onBackground K"
| "colorSpec2025 K Surface = surface K"
| "colorSpec2025 K SurfaceDim = surfaceDim K"
| "colorSpec2025 K SurfaceBright = surfaceBright K"
| "colorSpec2025 K SurfaceContainerLowest = surfaceContainerLowest"
| "colorSpec2025 K SurfaceContainerLow = surfaceContainerLow K"
| "colorSpec2025 K SurfaceContainer = surfaceContainer K"
| "colorSpec2025 K SurfaceContainerHigh = surfaceContainerHigh K"
| "colorSpec2025 K SurfaceContainerHighest = surfaceContainerHighest K"
| "colorSpec2025 K OnSurface = onSurface K"
| "colorSpec2025 K SurfaceVariant = surfaceVariant K"
| "colorSpec2025 K OnSurfaceVariant = onSurfaceVariant"
| "colorSpec2025 K InverseSurface = inverseSurface"
| "colorSpec2025 K InverseOnSurface = inverseOnSurface"
| "colorSpec2025 K Outline = outline"
| "colorSpec2025 K OutlineVariant = outlineVariant"
| "colorSpec2025 K Shadow = shadow"
| "colorSpec2025 K Scrim = scrim"
| "colorSpec2025 K SurfaceTint = surfaceTint"
| "colorSpec2025 K Primary = primary"
| "colorSpec2025 K PrimaryDim = primaryDim"
| "colorSpec2025 K OnPrimary = onPrimary"
| "colorSpec2025 K PrimaryContainer = primaryContainer"
| "colorSpec2025 K OnPrimaryContainer = onPrimaryContainer"
| "colorSpec2025 K InversePrimary = inversePrimary K"
| "colorSpec2025 K Secondary = secondary K"
| "colorSpec2025 K SecondaryDim = secondaryDim"
| "colorSpec2025 K OnSecondary = onSecondary"
| "colorSpec2025 K SecondaryContainer = secondaryContainer"
| "colorSpec2025 K OnSecondaryContainer = onSecondaryContainer"
| "colorSpec2025 K Tertiary = tertiary K"
| "colorSpec2025 K TertiaryDim = tertiaryDim K"
| "colorSpec2025 K OnTertiary = onTertiary"
| "colorSpec2025 K TertiaryContainer = tertiaryContainer K"
| "colorSpec2025 K OnTertiaryContainer = onTertiaryContainer"
| "colorSpec2025 K Error = error K"
| "colorSpec2025 K ErrorDim = errorDim K"
| "colorSpec2025 K OnError = onError"
| "colorSpec2025 K ErrorContainer = errorContainer K"
| "colorSpec2025 K OnErrorContainer = onErrorContainer"
| "colorSpec2025 K PrimaryFixed = primaryFixed K"
| "colorSpec2025 K PrimaryFixedDim = primaryFixedDim K"
| "colorSpec2025 K OnPrimaryFixed = onPrimaryFixed"
| "colorSpec2025 K OnPrimaryFixedVariant = onPrimaryFixedVariant"
| "colorSpec2025 K SecondaryFixed = secondaryFixed K"
| "colorSpec2025 K SecondaryFixedDim = secondaryFixedDim K"
| "colorSpec2025 K OnSecondaryFixed = onSecondaryFixed"
| "colorSpec2025 K OnSecondaryFixedVariant = onSecondaryFixedVariant"
| "colorSpec2025 K TertiaryFixed = tertiaryFixed K"
| "colorSpec2025 K TertiaryFixedDim = tertiaryFixedDim K"
| "colorSpec2025 K OnTertiaryFixed = onTertiaryFixed"
| "colorSpec2025 K OnTertiaryFixedVariant = onTertiaryFixedVariant"

section \<open>Palettes of a scheme (class DynamicScheme and its palette delegates)\<close>

text \<open>
  Modelled from the spec: \<open>TonalPalette.fromHueAndChroma\<close> (palettes/tonal_palette.ts is not
  among the sources). Glossary: a tonal palette is "a hue+chroma pair treated as a function
  from tone to a renderable color"; section 2: it "exposes a key tone". The key colour is the
  external capability \<open>keyColorOf\<close>.
\<close>

definition fromHueAndChroma :: "ext \<Rightarrow> real \<Rightarrow> real \<Rightarrow> tonal_palette" where
  "fromHueAndChroma K h c = \<lparr>hue = h, chroma = c, keyColor = keyColorOf K h c\<rparr>"

text \<open>
  The \<open>for\<close> loop of \<open>getPiecewiseHue\<close>, from index \<open>i\<close> on. Every read is in range:
  \<open>i < sz\<close>, and \<open>sz\<close> (the source's \<open>size\<close>) is at most \<open>hueBreakpoints.length - 1\<close> and \<open>hues.length\<close>.
\<close>

function piecewiseLoop :: "ext \<Rightarrow> real \<Rightarrow> real list \<Rightarrow> real list \<Rightarrow> int \<Rightarrow> nat \<Rightarrow> real" where
  "piecewiseLoop K sourceHue hueBreakpoints hues sz i =
     (if int i < sz then
        (if sourceHue \<ge> hueBreakpoints ! i \<and> sourceHue < hueBreakpoints ! (i + 1)
         then sanitizeDegreesDouble K (hues ! i)
         else piecewiseLoop K sourceHue hueBreakpoints hues sz (i + 1))
      else sourceHue)"
  by pat_completeness auto
termination
  by (relation "measure (\<lambda>(K, sourceHue, hueBreakpoints, hues, sz, i). nat (sz - int i))") auto

declare piecewiseLoop.simps [simp del]

definition getPiecewiseHue :: "ext \<Rightarrow> hct \<Rightarrow> real list \<Rightarrow> real list \<Rightarrow> real" where
  "getPiecewiseHue K sourceColor hueBreakpoints hues =
     piecewiseLoop K (hct.hue sourceColor) hueBreakpoints hues
       (min (int (length hueBreakpoints) - 1) (int (length hues))) 0"

definition getRotatedHue :: "ext \<Rightarrow> hct \<Rightarrow> real list \<Rightarrow> real list \<Rightarrow> real" where
  "getRotatedHue K sourceColor hueBreakpoints rotations =
     (let rotation = getPiecewiseHue K sourceColor hueBreakpoints rotations;
          rotation = (if min (int (length hueBreakpoints) - 1) (int (length rotations)) \<le> 0
                      then 0 else rotation)
      in sanitizeDegreesDouble K (hct.hue sourceColor + rotation))"

text \<open>Interface \<open>DynamicSchemePalettesDelegate\<close> and its two implementations.\<close>

record palettes_delegate =
  getPrimaryPalette :: "hct \<Rightarrow> bool \<Rightarrow> real \<Rightarrow> tonal_palette"
  getSecondaryPalette :: "hct \<Rightarrow> bool \<Rightarrow> real \<Rightarrow> tonal_palette"
  getTertiaryPalette :: "hct \<Rightarrow> bool \<Rightarrow> real \<Rightarrow> tonal_palette"
  getNeutralPalette :: "hct \<Rightarrow> bool \<Rightarrow> real \<Rightarrow> tonal_palette"
  getNeutralVariantPalette :: "hct \<Rightarrow> bool \<Rightarrow> real \<Rightarrow> tonal_palette"
  getErrorPalette :: "hct \<Rightarrow> bool \<Rightarrow> real \<Rightarrow> tonal_palette option"

definition spec2021 :: "ext \<Rightarrow> palettes_delegate" where
  "spec2021 K =
     \<lparr>getPrimaryPalette = (\<lambda>src dark lvl. fromHueAndChroma K (hct.hue src) 12.0),
      getSecondaryPalette = (\<lambda>src dark lvl. fromHueAndChroma K (hct.hue src) 8.0),
      getTertiaryPalette = (\<lambda>src dark lvl. fromHueAndChroma K (hct.hue src) 16.0),
      getNeutralPalette = (\<lambda>src dark lvl. fromHueAndChroma K (hct.hue src) 2.0),
      getNeutralVariantPalette = (\<lambda>src dark lvl. fromHueAndChroma K (hct.hue src) 2.0),
      getErrorPalette = (\<lambda>src dark lvl. None)\<rparr>"

definition spec2025 :: "ext \<Rightarrow> palettes_delegate" where
  "spec2025 K =
     \<lparr>getPrimaryPalette = (\<lambda>src dark lvl.
        fromHueAndChroma K (hct.hue src) (if isBlue K (hct.hue src) then 12 else 8)),
      getSecondaryPalette = (\<lambda>src dark lvl.
        fromHueAndChroma K (hct.hue src) (if isBlue K (hct.hue src) then 6 else 4)),
      getTertiaryPalette = (\<lambda>src dark lvl.
        fromHueAndChroma K
          (getRotatedHue K src [0, 38, 105, 161, 204, 278, 333, 360]
             [- 32, 26, 10, - 39, 24, - 15, - 32])
          20),
      getNeutralPalette = (\<lambda>src dark lvl. fromHueAndChroma K (hct.hue src) 1.4),
      getNeutralVariantPalette = (\<lambda>src dark lvl. fromHueAndChroma K (hct.hue src) (1.4 * 2.2)),
      getErrorPalette = (\<lambda>src dark lvl.
        Some (fromHueAndChroma K
          (getPiecewiseHue K src [0, 3, 13, 23, 33, 43, 153, 273, 360]
             [12, 22, 32, 12, 22, 32, 22, 12])
          50))\<rparr>"

definition getSpec :: "ext \<Rightarrow> spec_version \<Rightarrow> palettes_delegate" where
  "getSpec K v = (if v = V2025 then spec2025 K else spec2021 K)"

text \<open>
  The constructor of \<open>DynamicScheme\<close>; \<open>a ?? b\<close> is a case distinction on the option \<open>a\<close>.
\<close>

definition nullish :: "'a option \<Rightarrow> 'a \<Rightarrow> 'a" where
  "nullish a b = (case a of Some v \<Rightarrow> v | None \<Rightarrow> b)"

definition DynamicScheme :: "ext \<Rightarrow> scheme_options \<Rightarrow> scheme" where
  "DynamicScheme K args =
     (let version = nullish (scheme_options.specVersion args) V2021;
          src = scheme_options.sourceColorHct args;
          dark = scheme_options.isDark args;
          lvl = scheme_options.contrastLevel args
      in \<lparr>sourceColorHct = src,
          sourceColorArgb = hctToInt K src,
          contrastLevel = lvl,
          isDark = dark,
          specVersion = version,
          primaryPalette = nullish (scheme_options.primaryPalette args)
            (getPrimaryPalette (getSpec K version) src dark lvl),
          secondaryPalette = nullish (scheme_options.secondaryPalette args)
            (getSecondaryPalette (getSpec K version) src dark lvl),
          tertiaryPalette = nullish (scheme_options.tertiaryPalette args)
            (getTertiaryPalette (getSpec K version) src dark lvl),
          neutralPalette = nullish (scheme_options.neutralPalette args)
            (getNeutralPalette (getSpec K version) src dark lvl),
          neutralVariantPalette = nullish (scheme_options.neutralVariantPalette args)
            (getNeutralVariantPalette (getSpec K version) src dark lvl),
          errorPalette = nullish (scheme_options.errorPalette args)
            (nullish (getErrorPalette (getSpec K version) src dark lvl)
               (fromHueAndChroma K 25.0 84.0))\<rparr>)"

section \<open>Resolving a colour\<close>

text \<open>
  Modelled from the spec: the default of the chroma multiplier, which \<open>DynamicColor\<close>
  (dynamic_color.ts, not among the sources) applies. Section 3: "optional chroma-multiplier
  selector (default 1)".
\<close>

definition chromaMultiplierOf :: "dynamic_color \<Rightarrow> scheme \<Rightarrow> real" where
  "chromaMultiplierOf d s = (case chromaMultiplier d of None \<Rightarrow> 1 | Some f \<Rightarrow> f s)"

text \<open>
  The member of a tone-delta pair that a colour is. The pair names two roles; the name of
  a colour is its unique id (section 3 of the spec), so the colour is \<open>roleA\<close> when it has
  the name of the colour of \<open>roleA\<close>, \<open>roleB\<close> when it has the name of the colour of \<open>roleB\<close>,
  and no member otherwise. A remapped colour carries the pair of the colour it copies
  under a name of its own.
\<close>

datatype pair_member = MemberA | MemberB | NoMember

definition memberOf :: "ext \<Rightarrow> dynamic_color \<Rightarrow> tone_delta_pair \<Rightarrow> pair_member" where
  "memberOf K d pair =
     (if name d = name (colorSpec2025 K (roleA pair)) then MemberA
      else if name d = name (colorSpec2025 K (roleB pair)) then MemberB
      else NoMember)"

text \<open>
  Modelled from the spec: \<open>DynamicColor.getHct\<close> and \<open>DynamicColor.getArgb\<close> (dynamic_color.ts
  is not among the sources). Section 4.2 gives the contract
  \<open>resolve(scheme) \<rightarrow> (hue, chroma, tone, pixel)\<close> and its steps: the palette selector at the
  scheme (step 1); the explicit tone rule at the scheme, clamped to \<open>[0, 100]\<close>, or else the
  background and the contrast curve (step 2); the tone-delta pair, which adjusts one member
  against the other (step 3 and section 4.4), so that the step reads which member the
  colour is; the palette's chroma times the chroma multiplier (step 4); the sample
  (step 5). The numeric work of the steps (contrast search, the pair's constraint, gamut
  clipping, sampling, and resolving the colours referred to) is the external capability
  \<open>solve\<close>, which receives what the steps read from the colour.
\<close>

type_synonym solver =
  "tonal_palette \<Rightarrow> real option \<Rightarrow> real \<Rightarrow> bool \<Rightarrow> role option
     \<Rightarrow> contrast_curve option \<Rightarrow> (tone_delta_pair \<times> pair_member) option \<Rightarrow> scheme
     \<Rightarrow> hct \<times> int"

definition resolve :: "solver \<Rightarrow> ext \<Rightarrow> dynamic_color \<Rightarrow> scheme \<Rightarrow> hct \<times> int" where
  "resolve solve K d s =
     (let p = palette d s;
          explicitTone = map_option (\<lambda>rule. clampDouble 0 100 (rule s)) (dynamic_color.tone d);
          c = tonal_palette.chroma p * chromaMultiplierOf d s
      in solve p explicitTone c (isBackground d)
           (map_option (\<lambda>b. b s) (background d))
           (Option.bind (contrastCurve d) (\<lambda>f. f s))
           (map_option (\<lambda>pair. (pair, memberOf K d pair))
              (Option.bind (toneDeltaPair d) (\<lambda>f. f s)))
           s)"

text \<open>
  \<open>DynamicScheme.getArgb(dynamicColor)\<close> is \<open>dynamicColor.getArgb(this)\<close> and
  \<open>DynamicScheme.getHct(dynamicColor)\<close> is \<open>dynamicColor.getHct(this)\<close>.
\<close>

definition getArgb :: "solver \<Rightarrow> ext \<Rightarrow> scheme \<Rightarrow> dynamic_color \<Rightarrow> int" where
  "getArgb solve K s d = snd (resolve solve K d s)"


section \<open>The getters of the dim roles (class DynamicScheme)\<close>

text \<open>
  Class \<open>MaterialDynamicColors\<close> (material_dynamic_colors.ts) is not among the sources. The
  constructor of the scheme sets \<open>this.colors = new MaterialDynamicColors()\<close>, without the
  spec version or any other argument, and a getter calls the method of its role on it,
  \<open>this.colors.primaryDim()\<close>. The object is a lookup from a role to the colour its method
  returns, \<open>None\<close> for \<open>undefined\<close>; it is one value for all schemes.

  \<open>throw new Error(message)\<close> is the left summand of the result.
\<close>

type_synonym material_dynamic_colors = "role \<Rightarrow> dynamic_color option"

datatype js_error = JsError string

definition scheme_primaryDim ::
  "solver \<Rightarrow> ext \<Rightarrow> material_dynamic_colors \<Rightarrow> scheme \<Rightarrow> js_error + int" where
  "scheme_primaryDim solve K colors s =
     (case colors PrimaryDim of
        None \<Rightarrow> Inl (JsError ''`primaryDim` color is undefined prior to 2025 spec.'')
      | Some d \<Rightarrow> Inr (getArgb solve K s d))"

definition scheme_secondaryDim ::
  "solver \<Rightarrow> ext \<Rightarrow> material_dynamic_colors \<Rightarrow> scheme \<Rightarrow> js_error + int" where
  "scheme_secondaryDim solve K colors s =
     (case colors SecondaryDim of
        None \<Rightarrow> Inl (JsError ''`secondaryDim` color is undefined prior to 2025 spec.'')
      | Some d \<Rightarrow> Inr (getArgb solve K s d))"

definition scheme_tertiaryDim ::
  "solver \<Rightarrow> ext \<Rightarrow> material_dynamic_colors \<Rightarrow> scheme \<Rightarrow> js_error + int" where
  "scheme_tertiaryDim solve K colors s =
     (case colors TertiaryDim of
        None \<Rightarrow> Inl (JsError ''`tertiaryDim` color is undefined prior to 2025 spec.'')
      | Some d \<Rightarrow> Inr (getArgb solve K s d))"

definition scheme_errorDim ::
  "solver \<Rightarrow> ext \<Rightarrow> material_dynamic_colors \<Rightarrow> scheme \<Rightarrow> js_error + int" where
  "scheme_errorDim solve K colors s =
     (case colors ErrorDim of
        None \<Rightarrow> Inl (JsError ''`errorDim` color is undefined prior to 2025 spec.'')
      | Some d \<Rightarrow> Inr (getArgb solve K s d))"

text \<open>
  The lookup that the catalogue of the sources gives. \<open>ColorSpecDelegateImpl2025\<close> is the
  only implementation of \<open>ColorSpecDelegate\<close> among the sources, and each of its methods
  returns a colour, the four dim roles included.
\<close>

definition catalogueColors :: "ext \<Rightarrow> material_dynamic_colors" where
  "catalogueColors K r = Some (colorSpec2025 K r)"

section \<open>Names of the catalogue\<close>

text \<open>The names of the catalogue, each with its role.\<close>

definition roleNames :: "(string \<times> role) list" where
  "roleNames =
     [(''primary_palette_key_color'', PrimaryPaletteKeyColor),
      (''secondary_palette_key_color'', SecondaryPaletteKeyColor),
      (''tertiary_palette_key_color'', TertiaryPaletteKeyColor),
      (''neutral_palette_key_color'', NeutralPaletteKeyColor),
      (''neutral_variant_palette_key_color'', NeutralVariantPaletteKeyColor),
      (''error_palette_key_color'', ErrorPaletteKeyColor),
      (''background'', Background),
      (''on_background'', OnBackground),
      (''surface'', Surface),
      (''surface_dim'', SurfaceDim),
      (''surface_bright'', SurfaceBright),
      (''surface_container_lowest'', SurfaceContainerLowest),
      (''surface_container_low'', SurfaceContainerLow),
      (''surface_container'', SurfaceContainer),
      (''surface_container_high'', SurfaceContainerHigh),
      (''surface_container_highest'', SurfaceContainerHighest),
      (''on_surface'', OnSurface),
      (''surface_variant'', SurfaceVariant),
      (''on_surface_variant'', OnSurfaceVariant),
      (''inverse_surface'', InverseSurface),
      (''inverse_on_surface'', InverseOnSurface),
      (''outline'', Outline),
      (''outline_variant'', OutlineVariant),
      (''shadow'', Shadow),
      (''scrim'', Scrim),
      (''surface_tint'', SurfaceTint),
      (''primary'', Primary),
      (''primary_dim'', PrimaryDim),
      (''on_primary'', OnPrimary),
      (''primary_container'', PrimaryContainer),
      (''on_primary_container'', OnPrimaryContainer),
      (''inverse_primary'', InversePrimary),
      (''secondary'', Secondary),
      (''secondary_dim'', SecondaryDim),
      (''on_secondary'', OnSecondary),
      (''secondary_container'', SecondaryContainer),
      (''on_secondary_container'', OnSecondaryContainer),
      (''tertiary'', Tertiary),
      (''tertiary_dim'', TertiaryDim),
      (''on_tertiary'', OnTertiary),
      (''tertiary_container'', TertiaryContainer),
      (''on_tertiary_container'', OnTertiaryContainer),
      (''error'', Error),
      (''error_dim'', ErrorDim),
      (''on_error'', OnError),
      (''error_container'', ErrorContainer),
      (''on_error_container'', OnErrorContainer),
      (''primary_fixed'', PrimaryFixed),
      (''primary_fixed_dim'', PrimaryFixedDim),
      (''on_primary_fixed'', OnPrimaryFixed),
      (''on_primary_fixed_variant'', OnPrimaryFixedVariant),
      (''secondary_fixed'', SecondaryFixed),
      (''secondary_fixed_dim'', SecondaryFixedDim),
      (''on_secondary_fixed'', OnSecondaryFixed),
      (''on_secondary_fixed_variant'', OnSecondaryFixedVariant),
      (''tertiary_fixed'', TertiaryFixed),
      (''tertiary_fixed_dim'', TertiaryFixedDim),
      (''on_tertiary_fixed'', OnTertiaryFixed),
      (''on_tertiary_fixed_variant'', OnTertiaryFixedVariant)]"

section \<open>Groups of roles\<close>

text \<open>
  The surfaces proper, whose tones are the fixed table of the sources: \<open>surface\<close>,
  \<open>surface_dim\<close>, \<open>surface_bright\<close> and the five \<open>surface_container\<close> roles.
\<close>

definition surfaceRoles :: "role set" where
  "surfaceRoles = {Surface, SurfaceDim, SurfaceBright, SurfaceContainerLowest,
     SurfaceContainerLow, SurfaceContainer, SurfaceContainerHigh, SurfaceContainerHighest}"

text \<open>The roles under the heading "Surfaces [S]" of interface \<open>ColorSpecDelegate\<close>.\<close>

definition surfaceSection :: "role set" where
  "surfaceSection = {Background, OnBackground, Surface, SurfaceDim, SurfaceBright,
     SurfaceContainerLowest, SurfaceContainerLow, SurfaceContainer, SurfaceContainerHigh,
     SurfaceContainerHighest, OnSurface, SurfaceVariant, OnSurfaceVariant, InverseSurface,
     InverseOnSurface, Outline, OutlineVariant, Shadow, Scrim, SurfaceTint}"

text \<open>The roles whose colour has a chroma-multiplier selector.\<close>

definition multiplierRoles :: "role set" where
  "multiplierRoles = {SurfaceDim, SurfaceBright, SurfaceContainerLow, SurfaceContainer,
     SurfaceContainerHigh, SurfaceContainerHighest, OnSurface, SurfaceVariant,
     OnSurfaceVariant, Outline, OutlineVariant, OnBackground}"

section \<open>Concrete inputs\<close>

text \<open>
  Capabilities to evaluate the definitions on. In \<open>tentExt\<close> the chroma that \<open>Hct.from\<close>
  reaches rises by 10 per tone from tone 0, falls by 10 per tone towards tone 98, is 0
  outside, and never exceeds the chroma asked for. In \<open>greyExt\<close> every colour has chroma 0.
\<close>

definition tentExt :: ext where
  "tentExt =
     \<lparr>hctFrom = (\<lambda>h c t. \<lparr>hct.hue = h, hct.chroma = min c (max 0 (10 * min t (98 - t))), hct.tone = t\<rparr>),
      hctToInt = (\<lambda>x. 0),
      isYellow = (\<lambda>h. 60 \<le> h \<and> h < 120),
      isBlue = (\<lambda>h. 250 \<le> h \<and> h < 270),
      sanitizeDegreesDouble = (\<lambda>d. d - 360 * of_int \<lfloor>d / 360\<rfloor>),
      keyColorOf = (\<lambda>h c. \<lparr>hct.hue = h, hct.chroma = c, hct.tone = 50\<rparr>),
      getTone = (\<lambda>r s. 50),
      getInitialToneFromBackground = (\<lambda>b s. 50)\<rparr>"

definition greyExt :: ext where
  "greyExt = tentExt\<lparr>hctFrom := (\<lambda>h c t. \<lparr>hct.hue = h, hct.chroma = 0, hct.tone = t\<rparr>)\<rparr>"

text \<open>The palette of the spec's example: hue 120, chroma 40.\<close>

definition palette120 :: tonal_palette where
  "palette120 = fromHueAndChroma tentExt 120 40"

definition seedOptions :: "bool \<Rightarrow> scheme_options" where
  "seedOptions dark =
     \<lparr>scheme_options.sourceColorHct = \<lparr>hct.hue = 300, hct.chroma = 50, hct.tone = 50\<rparr>,
      scheme_options.contrastLevel = 0,
      scheme_options.isDark = dark,
      scheme_options.specVersion = Some V2021,
      scheme_options.primaryPalette = None,
      scheme_options.secondaryPalette = None,
      scheme_options.tertiaryPalette = None,
      scheme_options.neutralPalette = None,
      scheme_options.neutralVariantPalette = None,
      scheme_options.errorPalette = None\<rparr>"

definition lightScheme :: scheme where
  "lightScheme = DynamicScheme tentExt (seedOptions False)"

definition darkScheme :: scheme where
  "darkScheme = DynamicScheme tentExt (seedOptions True)"

text \<open>
  Two capabilities for the numeric steps; the pixel of both is the tone rounded down.
  \<open>plainSolve\<close> takes the explicit tone (50 when there is none) and does nothing at the
  pair step. \<open>followerSolve\<close> has a pair step: the
  colour that is \<open>roleB\<close> of its pair stays where it is, every other colour that carries a
  pair is moved by the pair's delta (and clamped to \<open>[0, 100]\<close>).
\<close>

definition plainSolve :: solver where
  "plainSolve p explicitTone c isBg bg curve pair s =
     (let t = (case explicitTone of Some t \<Rightarrow> t | None \<Rightarrow> 50)
      in (\<lparr>hct.hue = tonal_palette.hue p, hct.chroma = c, hct.tone = t\<rparr>, \<lfloor>t\<rfloor>))"


section \<open>The chroma-tone search: what the loop computes\<close>

lemma visited_Suc: "visited t0 dec (Suc k) = visited t0 dec k + toneStep dec"
  by (simp add: visited_def algebra_simps)

lemma findBestLoop_inv:
  "tn = visited t0 dec k \<Longrightarrow> hct.chroma best = sampled K h c answer \<Longrightarrow> searchInv K h c dec t0 k answer \<Longrightarrow>
   \<exists>n\<ge>k. searchInv K h c dec t0 n (findBestLoop K h c dec tn best answer)
        \<and> (c \<le> sampled K h c (findBestLoop K h c dec tn best answer)
            \<or> visited t0 dec n < 0 \<or> 100 < visited t0 dec n)"
proof (induction K h c dec tn best answer arbitrary: k rule: findBestLoop.induct)
  case (1 K h c dec tn best answer)
  let ?tn' = "tn + toneStep dec"
  show ?case
  proof (cases "hct.chroma best < c")
    case False
    then have "findBestLoop K h c dec tn best answer = answer"
      by (simp add: findBestLoop.simps)
    with False "1.prems" show ?thesis by (intro exI[of _ k]) simp
  next
    case lt: True
    show ?thesis
    proof (cases "tn < 0 \<or> tn > 100")
      case True
      then have "findBestLoop K h c dec tn best answer = answer"
        using lt by (simp add: findBestLoop.simps)
      with True "1.prems" show ?thesis by (intro exI[of _ k]) auto
    next
      case inr: False
      have tn': "?tn' = visited t0 dec (Suc k)"
        using "1.prems"(1) by (simp add: visited_Suc)
      have upto: "\<forall>i<Suc k. 0 \<le> visited t0 dec i \<and> visited t0 dec i \<le> 100 \<and> sampled K h c (visited t0 dec i) < c"
      proof (intro allI impI)
        fix i assume "i < Suc k"
        then consider "i < k" | "i = k" by linarith
        then show "0 \<le> visited t0 dec i \<and> visited t0 dec i \<le> 100 \<and> sampled K h c (visited t0 dec i) < c"
        proof cases
          case 1 then show ?thesis using "1.prems"(3) by (simp add: searchInv_def)
        next
          case 2
          have "sampled K h c (visited t0 dec k) \<le> sampled K h c answer"
            using "1.prems"(3) by (simp add: searchInv_def)
          then show ?thesis using 2 inr lt "1.prems"(1,2) by simp
        qed
      qed
      show ?thesis
      proof (cases "hct.chroma best < hct.chroma (hctFrom K h c ?tn')")
        case True
        have eq: "findBestLoop K h c dec tn best answer = findBestLoop K h c dec ?tn' (hctFrom K h c ?tn') ?tn'"
          using lt inr True by (subst findBestLoop.simps) simp
        have inv': "searchInv K h c dec t0 (Suc k) ?tn'"
          unfolding searchInv_def
        proof (intro conjI)
          have "\<forall>i<Suc k. sampled K h c (visited t0 dec i) < sampled K h c ?tn'"
          proof (intro allI impI)
            fix i assume "i < Suc k"
            then have "i \<le> k" by simp
            then have "sampled K h c (visited t0 dec i) \<le> sampled K h c answer"
              using "1.prems"(3) by (simp add: searchInv_def)
            then show "sampled K h c (visited t0 dec i) < sampled K h c ?tn'"
              using True "1.prems"(2) by (simp add: sampled_def)
          qed
          then show "\<exists>j\<le>Suc k. ?tn' = visited t0 dec j \<and> (\<forall>i<j. sampled K h c (visited t0 dec i) < sampled K h c ?tn')"
            using tn' by blast
          show "\<forall>i\<le>Suc k. sampled K h c (visited t0 dec i) \<le> sampled K h c ?tn'"
          proof (intro allI impI)
            fix i assume "i \<le> Suc k"
            then consider "i \<le> k" | "i = Suc k" by linarith
            then show "sampled K h c (visited t0 dec i) \<le> sampled K h c ?tn'"
            proof cases
              case 1
              then have "sampled K h c (visited t0 dec i) \<le> sampled K h c answer"
                using "1.prems"(3) by (simp add: searchInv_def)
              then show ?thesis using True "1.prems"(2) by (simp add: sampled_def)
            next
              case 2 then show ?thesis using tn' by simp
            qed
          qed
          show "\<forall>i<Suc k. 0 \<le> visited t0 dec i \<and> visited t0 dec i \<le> 100 \<and> sampled K h c (visited t0 dec i) < c"
            by (rule upto)
        qed
        from "1.IH"(1)[OF lt inr True tn' _ inv']
        obtain n where "n \<ge> Suc k" "searchInv K h c dec t0 n (findBestLoop K h c dec ?tn' (hctFrom K h c ?tn') ?tn')
          \<and> (c \<le> sampled K h c (findBestLoop K h c dec ?tn' (hctFrom K h c ?tn') ?tn')
            \<or> visited t0 dec n < 0 \<or> 100 < visited t0 dec n)"
          by (auto simp: sampled_def)
        then show ?thesis unfolding eq by (intro exI[of _ n]) simp
      next
        case False
        have eq: "findBestLoop K h c dec tn best answer = findBestLoop K h c dec ?tn' best answer"
          using lt inr False by (subst findBestLoop.simps) simp
        have inv': "searchInv K h c dec t0 (Suc k) answer"
          unfolding searchInv_def
        proof (intro conjI)
          obtain j where j: "j \<le> k" "answer = visited t0 dec j" "\<forall>i<j. sampled K h c (visited t0 dec i) < sampled K h c answer"
            using "1.prems"(3) by (auto simp: searchInv_def)
          then show "\<exists>j\<le>Suc k. answer = visited t0 dec j \<and> (\<forall>i<j. sampled K h c (visited t0 dec i) < sampled K h c answer)"
            by (intro exI[of _ j]) simp
          show "\<forall>i\<le>Suc k. sampled K h c (visited t0 dec i) \<le> sampled K h c answer"
          proof (intro allI impI)
            fix i assume "i \<le> Suc k"
            then consider "i \<le> k" | "i = Suc k" by linarith
            then show "sampled K h c (visited t0 dec i) \<le> sampled K h c answer"
            proof cases
              case 1
              then show ?thesis using "1.prems"(3) by (simp add: searchInv_def)
            next
              case 2 then show ?thesis using tn' False "1.prems"(2) by (simp add: sampled_def)
            qed
          qed
          show "\<forall>i<Suc k. 0 \<le> visited t0 dec i \<and> visited t0 dec i \<le> 100 \<and> sampled K h c (visited t0 dec i) < c"
            by (rule upto)
        qed
        from "1.IH"(2)[OF lt inr False tn' "1.prems"(2) inv']
        obtain n where "n \<ge> Suc k" "searchInv K h c dec t0 n (findBestLoop K h c dec ?tn' best answer)
          \<and> (c \<le> sampled K h c (findBestLoop K h c dec ?tn' best answer)
            \<or> visited t0 dec n < 0 \<or> 100 < visited t0 dec n)"
          by auto
        then show ?thesis unfolding eq by (intro exI[of _ n]) simp
      qed
    qed
  qed
qed

lemma visited_0: "visited t0 dec 0 = t0"
  by (simp add: visited_def)

lemma findBestToneForChroma_char:
  "\<exists>n j. j \<le> n \<and> findBestToneForChroma K h c t0 dec = visited t0 dec j
     \<and> (\<forall>i<n. 0 \<le> visited t0 dec i \<and> visited t0 dec i \<le> 100 \<and> sampled K h c (visited t0 dec i) < c)
     \<and> (c \<le> sampled K h c (visited t0 dec n) \<or> visited t0 dec n < 0 \<or> 100 < visited t0 dec n)
     \<and> (\<forall>i\<le>n. sampled K h c (visited t0 dec i) \<le> sampled K h c (visited t0 dec j))
     \<and> (\<forall>i<j. sampled K h c (visited t0 dec i) < sampled K h c (visited t0 dec j))"
proof -
  let ?r = "findBestToneForChroma K h c t0 dec"
  have "\<exists>n\<ge>0. searchInv K h c dec t0 n ?r
          \<and> (c \<le> sampled K h c ?r \<or> visited t0 dec n < 0 \<or> 100 < visited t0 dec n)"
    unfolding findBestToneForChroma_def
    by (rule findBestLoop_inv) (simp_all add: visited_0 sampled_def searchInv_def)
  then obtain n where inv: "searchInv K h c dec t0 n ?r"
    and stop: "c \<le> sampled K h c ?r \<or> visited t0 dec n < 0 \<or> 100 < visited t0 dec n"
    by auto
  from inv obtain j where j: "j \<le> n" "?r = visited t0 dec j"
    "\<forall>i<j. sampled K h c (visited t0 dec i) < sampled K h c ?r"
    by (auto simp: searchInv_def)
  have below: "\<forall>i<n. 0 \<le> visited t0 dec i \<and> visited t0 dec i \<le> 100 \<and> sampled K h c (visited t0 dec i) < c"
    using inv by (simp add: searchInv_def)
  have le: "\<forall>i\<le>n. sampled K h c (visited t0 dec i) \<le> sampled K h c ?r"
    using inv by (simp add: searchInv_def)
  have stop': "c \<le> sampled K h c (visited t0 dec n) \<or> visited t0 dec n < 0 \<or> 100 < visited t0 dec n"
  proof (cases "j = n")
    case True
    then show ?thesis using stop j(2) by simp
  next
    case False
    then have "j < n" using j(1) by simp
    then have "sampled K h c ?r < c" using below j(2) by simp
    then show ?thesis using stop by simp
  qed
  show ?thesis
    using j below le stop' by (intro exI[of _ n] exI[of _ j]) simp
qed

text \<open>Facts to evaluate the search on the concrete capabilities.\<close>

lemmas search_eval = findBestToneForChroma_def findBestLoop.simps tentExt_def toneStep_def
  sampled_def visited_def

lemmas palette_eval = palette120_def fromHueAndChroma_def tMaxC_def tMinC_def clampDouble_def

lemma clampDouble_window: "lo \<le> hi \<Longrightarrow> lo \<le> clampDouble lo hi x \<and> clampDouble lo hi x \<le> hi"
  by (simp add: clampDouble_def)

lemma clampDouble_inside: "lo \<le> x \<Longrightarrow> x \<le> hi \<Longrightarrow> clampDouble lo hi x = x"
  by (simp add: clampDouble_def)

lemma findBestToneForChroma_neighbour:
  assumes "0 \<le> findBestToneForChroma K h c t0 dec" "findBestToneForChroma K h c t0 dec \<le> 100"
  shows "c \<le> sampled K h c (findBestToneForChroma K h c t0 dec)
     \<or> sampled K h c (findBestToneForChroma K h c t0 dec + toneStep dec)
          \<le> sampled K h c (findBestToneForChroma K h c t0 dec)"
proof -
  let ?r = "findBestToneForChroma K h c t0 dec"
  obtain n j where j: "j \<le> n" "?r = visited t0 dec j"
    and stop: "c \<le> sampled K h c (visited t0 dec n) \<or> visited t0 dec n < 0 \<or> 100 < visited t0 dec n"
    and le: "\<forall>i\<le>n. sampled K h c (visited t0 dec i) \<le> sampled K h c (visited t0 dec j)"
    using findBestToneForChroma_char[of K h c t0 dec] by blast
  show ?thesis
  proof (cases "j = n")
    case True
    then show ?thesis using stop j(2) assms by simp
  next
    case False
    then have "Suc j \<le> n" using j(1) by simp
    then have "sampled K h c (visited t0 dec (Suc j)) \<le> sampled K h c (visited t0 dec j)"
      using le by blast
    then show ?thesis using j(2) by (simp add: visited_Suc)
  qed
qed

subsection \<open>Claim C1\<close>

text \<open>
  Claim C1 says that \<open>findBestToneForChroma\<close> stops at the array bound or as soon as
  improvement ceases, at the first step whose sampled chroma does not strictly exceed the
  best so far. The loop of the sources has another test: it runs while the best sampled
  chroma is below the target chroma, and a step without improvement only leaves the answer
  as it is.

  Claim C1, amended: for every hue \<open>h\<close>, target chroma \<open>c\<close> and starting tone \<open>t0\<close>, the
  search steps the tone by 1 from \<open>t0\<close> toward the opposite end of the tone range and visits
  the tones \<open>t0, t0 \<plusminus> 1, ..., t0 \<plusminus> n\<close>, where \<open>n\<close> is the first step at which the sampled chroma
  reaches the target \<open>c\<close> or the tone lies outside \<open>[0, 100]\<close> (that tone is still sampled).
  It returns the first visited tone whose sampled chroma is the largest among the tones
  visited.
\<close>

theorem findBestToneForChroma_stops_at_target:
  "\<exists>n j. j \<le> n \<and> findBestToneForChroma K h c t0 dec = visited t0 dec j
     \<and> (\<forall>i<n. 0 \<le> visited t0 dec i \<and> visited t0 dec i \<le> 100 \<and> sampled K h c (visited t0 dec i) < c)
     \<and> (c \<le> sampled K h c (visited t0 dec n) \<or> visited t0 dec n < 0 \<or> 100 < visited t0 dec n)
     \<and> (\<forall>i\<le>n. sampled K h c (visited t0 dec i) \<le> sampled K h c (visited t0 dec j))
     \<and> (\<forall>i<j. sampled K h c (visited t0 dec i) < sampled K h c (visited t0 dec j))"
  by (rule findBestToneForChroma_char)

theorem findBestToneForChroma_stops_at_target_witness:
  "findBestToneForChroma tentExt 120 10 100 True = 97
   \<and> (\<exists>n j. j \<le> n \<and> visited 100 True j = 97
     \<and> (10 \<le> sampled tentExt 120 10 (visited 100 True n) \<or> visited 100 True n < 0 \<or> 100 < visited 100 True n))"
proof -
  have ev: "findBestToneForChroma tentExt 120 10 100 True = 97"
    by (simp add: search_eval)
  from findBestToneForChroma_stops_at_target[of tentExt 120 10 100 True]
  obtain n j where "j \<le> n" "findBestToneForChroma tentExt 120 10 100 True = visited 100 True j"
    "10 \<le> sampled tentExt 120 10 (visited 100 True n) \<or> visited 100 True n < 0 \<or> 100 < visited 100 True n"
    by blast
  with ev show ?thesis by auto
qed

text \<open>
  With \<open>tentExt\<close>, target 10 and start 100 the sampled chroma is 0 at the tones 100, 99 and
  98 and 10 at tone 97. The first step does not improve, so the search as claim C1 words
  it stops there and returns 100; the code goes on and returns 97.
\<close>

theorem findBestToneForChroma_not_claimed_search:
  "findBestToneForChroma tentExt 120 10 100 True = 97
   \<and> findBestToneForChroma_claimed tentExt 120 10 100 True = 100"
  by (simp add: search_eval findBestToneForChroma_claimed_def claimedLoop.simps)

subsection \<open>Claim C2\<close>

text \<open>
  Claim C2 says that \<open>tMaxC\<close> and \<open>tMinC\<close> return a tone inside the window such that no
  neighbouring tone in the search direction yields strictly higher sampled chroma. The
  clamp is applied after the search and can move the tone to one whose neighbour is
  sampled higher.

  Claim C2, amended: for every palette and every bound pair \<open>lowerBound \<le> upperBound\<close>,
  \<open>tMaxC\<close> and \<open>tMinC\<close> return a tone inside \<open>[lowerBound, upperBound]\<close>. When the tone that
  the search found lies in the window and in \<open>[0, 100]\<close>, it is returned unchanged, and
  then either its sampled chroma has reached the target chroma or the next tone in the
  search direction does not yield strictly higher sampled chroma. Nothing is said about
  the neighbours of a tone that the clamp has moved.
\<close>

theorem tMaxC_tMinC_window:
  "lb \<le> ub \<Longrightarrow>
     lb \<le> tMaxC K p lb ub m \<and> tMaxC K p lb ub m \<le> ub
     \<and> lb \<le> tMinC K p lb ub \<and> tMinC K p lb ub \<le> ub
     \<and> (max lb 0 \<le> findBestToneForChroma K (tonal_palette.hue p) (tonal_palette.chroma p * m) 100 True
          \<and> findBestToneForChroma K (tonal_palette.hue p) (tonal_palette.chroma p * m) 100 True \<le> min ub 100
        \<longrightarrow> tMaxC K p lb ub m = findBestToneForChroma K (tonal_palette.hue p) (tonal_palette.chroma p * m) 100 True
          \<and> (tonal_palette.chroma p * m \<le> sampled K (tonal_palette.hue p) (tonal_palette.chroma p * m) (tMaxC K p lb ub m)
             \<or> sampled K (tonal_palette.hue p) (tonal_palette.chroma p * m) (tMaxC K p lb ub m - 1)
                \<le> sampled K (tonal_palette.hue p) (tonal_palette.chroma p * m) (tMaxC K p lb ub m)))
     \<and> (max lb 0 \<le> findBestToneForChroma K (tonal_palette.hue p) (tonal_palette.chroma p) 0 False
          \<and> findBestToneForChroma K (tonal_palette.hue p) (tonal_palette.chroma p) 0 False \<le> min ub 100
        \<longrightarrow> tMinC K p lb ub = findBestToneForChroma K (tonal_palette.hue p) (tonal_palette.chroma p) 0 False
          \<and> (tonal_palette.chroma p \<le> sampled K (tonal_palette.hue p) (tonal_palette.chroma p) (tMinC K p lb ub)
             \<or> sampled K (tonal_palette.hue p) (tonal_palette.chroma p) (tMinC K p lb ub + 1)
                \<le> sampled K (tonal_palette.hue p) (tonal_palette.chroma p) (tMinC K p lb ub)))"
proof -
  assume lu: "lb \<le> ub"
  let ?a = "findBestToneForChroma K (tonal_palette.hue p) (tonal_palette.chroma p * m) 100 True"
  let ?b = "findBestToneForChroma K (tonal_palette.hue p) (tonal_palette.chroma p) 0 False"
  have w1: "lb \<le> tMaxC K p lb ub m \<and> tMaxC K p lb ub m \<le> ub"
    unfolding tMaxC_def by (rule clampDouble_window[OF lu])
  have w2: "lb \<le> tMinC K p lb ub \<and> tMinC K p lb ub \<le> ub"
    unfolding tMinC_def by (rule clampDouble_window[OF lu])
  have n1: "tMaxC K p lb ub m = ?a
      \<and> (tonal_palette.chroma p * m \<le> sampled K (tonal_palette.hue p) (tonal_palette.chroma p * m) (tMaxC K p lb ub m)
         \<or> sampled K (tonal_palette.hue p) (tonal_palette.chroma p * m) (tMaxC K p lb ub m - 1)
            \<le> sampled K (tonal_palette.hue p) (tonal_palette.chroma p * m) (tMaxC K p lb ub m))"
    if "max lb 0 \<le> ?a \<and> ?a \<le> min ub 100"
  proof -
    from that have eq: "tMaxC K p lb ub m = ?a"
      by (simp add: tMaxC_def clampDouble_inside)
    from that have "0 \<le> ?a" "?a \<le> 100" by simp_all
    from findBestToneForChroma_neighbour[OF this] show ?thesis
      unfolding eq by (simp add: toneStep_def)
  qed
  have n2: "tMinC K p lb ub = ?b
      \<and> (tonal_palette.chroma p \<le> sampled K (tonal_palette.hue p) (tonal_palette.chroma p) (tMinC K p lb ub)
         \<or> sampled K (tonal_palette.hue p) (tonal_palette.chroma p) (tMinC K p lb ub + 1)
            \<le> sampled K (tonal_palette.hue p) (tonal_palette.chroma p) (tMinC K p lb ub))"
    if "max lb 0 \<le> ?b \<and> ?b \<le> min ub 100"
  proof -
    from that have eq: "tMinC K p lb ub = ?b"
      by (simp add: tMinC_def clampDouble_inside)
    from that have "0 \<le> ?b" "?b \<le> 100" by simp_all
    from findBestToneForChroma_neighbour[OF this] show ?thesis
      unfolding eq by (simp add: toneStep_def)
  qed
  from w1 w2 n1 n2 show ?thesis by blast
qed

theorem tMaxC_tMinC_window_witness:
  "(0::real) \<le> 100 \<and> tMaxC tentExt palette120 0 100 1 = 94 \<and> tMinC tentExt palette120 0 100 = 4
   \<and> findBestToneForChroma tentExt 120 40 100 True = 94
   \<and> findBestToneForChroma tentExt 120 40 0 False = 4
   \<and> 40 \<le> sampled tentExt 120 40 94 \<and> 40 \<le> sampled tentExt 120 40 4
   \<and> 0 \<le> tMaxC tentExt palette120 0 100 1 \<and> tMaxC tentExt palette120 0 100 1 \<le> 100"
proof -
  have f: "findBestToneForChroma tentExt 120 40 100 True = 94"
    "findBestToneForChroma tentExt 120 40 0 False = 4"
    by (simp_all add: search_eval)
  have e1: "tMaxC tentExt palette120 0 100 1 = 94"
    by (simp add: palette_eval search_eval)
  have e2: "tMinC tentExt palette120 0 100 = 4"
    by (simp add: palette_eval search_eval)
  have e3: "40 \<le> sampled tentExt 120 40 94" "40 \<le> sampled tentExt 120 40 4"
    by (simp_all add: sampled_def tentExt_def)
  have "(0::real) \<le> 100" by simp
  from tMaxC_tMinC_window[OF this, of tentExt palette120 1]
  have "0 \<le> tMaxC tentExt palette120 0 100 1 \<and> tMaxC tentExt palette120 0 100 1 \<le> 100"
    by blast
  with e1 e2 e3 f show ?thesis by simp
qed

text \<open>
  With \<open>tentExt\<close> and the palette of hue 120 and chroma 40, the search of \<open>tMinC\<close> climbs
  from tone 0 to tone 4, where the sampled chroma reaches 40. The window \<open>[0, 2]\<close> clamps
  the result to 2, where the sampled chroma is 20; at the next tone, 3, it is 30.
\<close>

theorem tMinC_clamped_neighbour_higher:
  "(0::real) \<le> 0 \<and> (0::real) \<le> 2 \<and> (2::real) \<le> 100
   \<and> tMinC tentExt palette120 0 2 = 2
   \<and> sampled tentExt (tonal_palette.hue palette120) (tonal_palette.chroma palette120) 2
       < sampled tentExt (tonal_palette.hue palette120) (tonal_palette.chroma palette120) (2 + toneStep False)"
  by (simp add: palette_eval search_eval)

subsection \<open>Claim C6\<close>

text \<open>
  Claim C6: for every hue and target chroma, if no stepped tone yields strictly higher
  sampled chroma than the starting tone before the search exits \<open>[0, 100]\<close>, then
  \<open>findBestToneForChroma\<close> returns the starting tone unchanged: 100 for the search of
  \<open>tMaxC\<close> and 0 for the search of \<open>tMinC\<close>, before the clamp. The hypothesis ranges over
  the steps \<open>k\<close> that the search can take: every earlier tone is inside \<open>[0, 100]\<close> and
  sampled below the target.
\<close>

theorem findBestToneForChroma_returns_seed:
  "(\<forall>k\<ge>1. (\<forall>i<k. 0 \<le> visited t0 dec i \<and> visited t0 dec i \<le> 100 \<and> sampled K h c (visited t0 dec i) < c)
        \<longrightarrow> sampled K h c (visited t0 dec k) \<le> sampled K h c t0)
   \<Longrightarrow> findBestToneForChroma K h c t0 dec = t0"
proof -
  assume H: "\<forall>k\<ge>1. (\<forall>i<k. 0 \<le> visited t0 dec i \<and> visited t0 dec i \<le> 100 \<and> sampled K h c (visited t0 dec i) < c)
        \<longrightarrow> sampled K h c (visited t0 dec k) \<le> sampled K h c t0"
  obtain n j where j: "j \<le> n" "findBestToneForChroma K h c t0 dec = visited t0 dec j"
    and below: "\<forall>i<n. 0 \<le> visited t0 dec i \<and> visited t0 dec i \<le> 100 \<and> sampled K h c (visited t0 dec i) < c"
    and first: "\<forall>i<j. sampled K h c (visited t0 dec i) < sampled K h c (visited t0 dec j)"
    using findBestToneForChroma_char[of K h c t0 dec] by blast
  have "j = 0"
  proof (rule ccontr)
    assume "j \<noteq> 0"
    then have j1: "1 \<le> j" by simp
    have "\<forall>i<j. 0 \<le> visited t0 dec i \<and> visited t0 dec i \<le> 100 \<and> sampled K h c (visited t0 dec i) < c"
      using below j(1) by simp
    with H j1 have "sampled K h c (visited t0 dec j) \<le> sampled K h c t0" by blast
    moreover have "sampled K h c (visited t0 dec 0) < sampled K h c (visited t0 dec j)"
      using first j1 by simp
    ultimately show False by (simp add: visited_0)
  qed
  then show ?thesis using j(2) by (simp add: visited_0)
qed

theorem findBestToneForChroma_returns_seed_witness:
  "findBestToneForChroma greyExt 120 40 100 True = 100 \<and> findBestToneForChroma greyExt 120 40 0 False = 0"
proof -
  have s0: "sampled greyExt 120 40 t = 0" for t
    by (simp add: sampled_def greyExt_def tentExt_def)
  have "findBestToneForChroma greyExt 120 40 100 True = 100"
    by (rule findBestToneForChroma_returns_seed) (simp add: s0)
  moreover have "findBestToneForChroma greyExt 120 40 0 False = 0"
    by (rule findBestToneForChroma_returns_seed) (simp add: s0)
  ultimately show ?thesis by simp
qed

section \<open>The scheme: hue rotation, palettes and dim getters\<close>

lemma piecewiseLoop_no_match:
  "(\<forall>j. i \<le> j \<and> int j < sz \<longrightarrow> \<not> (bps ! j \<le> h \<and> h < bps ! (j + 1)))
   \<Longrightarrow> piecewiseLoop K h bps hues sz i = h"
proof (induction K h bps hues sz i rule: piecewiseLoop.induct)
  case (1 K sourceHue hueBreakpoints hues sz i)
  show ?case
  proof (cases "int i < sz")
    case True
    with "1.prems" have nm: "\<not> (hueBreakpoints ! i \<le> sourceHue \<and> sourceHue < hueBreakpoints ! (i + 1))"
      by simp
    have "piecewiseLoop K sourceHue hueBreakpoints hues sz (i + 1) = sourceHue"
      using True nm "1.prems" by (intro "1.IH") auto
    then show ?thesis using True nm by (subst piecewiseLoop.simps) auto
  next
    case False
    then show ?thesis by (subst piecewiseLoop.simps) simp
  qed
qed

subsection \<open>Claim C9\<close>

text \<open>
  Claim C9: for every source colour and tables with at least one interval, that is
  \<open>min(hueBreakpoints.length - 1, rotations.length) > 0\<close>, if the source hue falls in no
  interval \<open>[hueBreakpoints[i], hueBreakpoints[i+1])\<close>, then \<open>getRotatedHue\<close> returns
  \<open>sanitizeDegreesDouble(sourceHue + sourceHue)\<close>: \<open>getPiecewiseHue\<close> hands back the source hue
  and \<open>getRotatedHue\<close> adds it as the rotation. The rotation is forced to 0, and the source
  hue returned, when \<open>min(hueBreakpoints.length - 1, rotations.length) \<le> 0\<close>.
\<close>

theorem getRotatedHue_no_interval_doubles_hue:
  "(0 < min (int (length hueBreakpoints) - 1) (int (length rotations))
      \<and> (\<forall>i. int i < min (int (length hueBreakpoints) - 1) (int (length rotations))
            \<longrightarrow> \<not> (hueBreakpoints ! i \<le> hct.hue src \<and> hct.hue src < hueBreakpoints ! (i + 1)))
    \<longrightarrow> getRotatedHue K src hueBreakpoints rotations
          = sanitizeDegreesDouble K (hct.hue src + hct.hue src))
   \<and> (min (int (length hueBreakpoints) - 1) (int (length rotations)) \<le> 0
    \<longrightarrow> getRotatedHue K src hueBreakpoints rotations = sanitizeDegreesDouble K (hct.hue src))"
proof (intro conjI impI)
  assume a: "0 < min (int (length hueBreakpoints) - 1) (int (length rotations))
      \<and> (\<forall>i. int i < min (int (length hueBreakpoints) - 1) (int (length rotations))
            \<longrightarrow> \<not> (hueBreakpoints ! i \<le> hct.hue src \<and> hct.hue src < hueBreakpoints ! (i + 1)))"
  then have "getPiecewiseHue K src hueBreakpoints rotations = hct.hue src"
    unfolding getPiecewiseHue_def by (intro piecewiseLoop_no_match) simp
  then have pw: "getPiecewiseHue K src hueBreakpoints rotations = hct.hue src" .
  from a have pos: "\<not> min (int (length hueBreakpoints) - 1) (int (length rotations)) \<le> 0"
    by linarith
  show "getRotatedHue K src hueBreakpoints rotations
      = sanitizeDegreesDouble K (hct.hue src + hct.hue src)"
    unfolding getRotatedHue_def Let_def by (simp only: pw pos if_False)
next
  assume "min (int (length hueBreakpoints) - 1) (int (length rotations)) \<le> 0"
  then show "getRotatedHue K src hueBreakpoints rotations = sanitizeDegreesDouble K (hct.hue src)"
    by (simp add: getRotatedHue_def Let_def)
qed

theorem getRotatedHue_no_interval_doubles_hue_witness:
  "getRotatedHue tentExt \<lparr>hct.hue = 300, hct.chroma = 50, hct.tone = 50\<rparr> [0, 101, 210] [26, - 39] = 240
   \<and> getRotatedHue tentExt \<lparr>hct.hue = 300, hct.chroma = 50, hct.tone = 50\<rparr> [0] [26] = 300"
proof -
  let ?src = "\<lparr>hct.hue = 300, hct.chroma = 50, hct.tone = 50\<rparr>"
  have fl: "\<lfloor>(600::real) / 360\<rfloor> = 1" "\<lfloor>(300::real) / 360\<rfloor> = 0" by linarith+
  have less2: "(i < 2) = (i = 0 \<or> i = Suc 0)" for i :: nat by auto
  have "getRotatedHue tentExt ?src [0, 101, 210] [26, - 39]
      = sanitizeDegreesDouble tentExt (hct.hue ?src + hct.hue ?src)"
    using getRotatedHue_no_interval_doubles_hue[of "[0, 101, 210]" "[26, - 39]" ?src tentExt]
    by (auto simp: less2)
  moreover have "getRotatedHue tentExt ?src [0] [26] = sanitizeDegreesDouble tentExt (hct.hue ?src)"
    using getRotatedHue_no_interval_doubles_hue[of "[0]" "[26]" ?src tentExt] by simp
  ultimately show ?thesis by (simp add: tentExt_def fl)
qed

subsection \<open>Claim C10\<close>

text \<open>
  Claim C10: for every source colour, dark flag and contrast level, a scheme constructed
  with spec version \<open>'2021'\<close> (given, or left out and defaulted) and without an error
  palette of the caller has the error palette \<open>TonalPalette.fromHueAndChroma(25.0, 84.0)\<close>,
  of hue 25 and chroma 84 whatever the seed: the palette delegate of 2021 returns
  \<open>undefined\<close> and the constructor puts this palette in its place.
\<close>

theorem error_palette_2021_fixed:
  "scheme_options.specVersion args = Some V2021 \<or> scheme_options.specVersion args = None
   \<Longrightarrow> scheme_options.errorPalette args = None
   \<Longrightarrow> errorPalette (DynamicScheme K args) = fromHueAndChroma K 25 84
     \<and> tonal_palette.hue (errorPalette (DynamicScheme K args)) = 25
     \<and> tonal_palette.chroma (errorPalette (DynamicScheme K args)) = 84
     \<and> getErrorPalette (getSpec K V2021) (scheme_options.sourceColorHct args)
          (scheme_options.isDark args) (scheme_options.contrastLevel args) = None"
  by (auto simp: DynamicScheme_def Let_def nullish_def getSpec_def spec2021_def fromHueAndChroma_def)

theorem error_palette_2021_fixed_witness:
  "scheme_options.specVersion (seedOptions False) = Some V2021
   \<and> scheme_options.errorPalette (seedOptions False) = None
   \<and> tonal_palette.hue (errorPalette lightScheme) = 25
   \<and> tonal_palette.chroma (errorPalette lightScheme) = 84"
  using error_palette_2021_fixed[of "seedOptions False" tentExt]
  by (simp add: seedOptions_def lightScheme_def fromHueAndChroma_def)

subsection \<open>Claim C3\<close>

text \<open>
  A getter of a dim role raises exactly when the lookup returns \<open>undefined\<close> for the role.
  The scheme is not asked: whether the getter raises is the same for every scheme, of
  spec version 2021 or 2025.
\<close>

lemma dim_getters_raise_iff_undefined:
  "isl (scheme_primaryDim solve K colors s) = (colors PrimaryDim = None)
   \<and> isl (scheme_secondaryDim solve K colors s) = (colors SecondaryDim = None)
   \<and> isl (scheme_tertiaryDim solve K colors s) = (colors TertiaryDim = None)
   \<and> isl (scheme_errorDim solve K colors s) = (colors ErrorDim = None)"
  by (simp add: scheme_primaryDim_def scheme_secondaryDim_def scheme_tertiaryDim_def
      scheme_errorDim_def split: option.split)

lemma dim_getters_defined_in_catalogue:
  "scheme_primaryDim solve K (catalogueColors K) s = Inr (getArgb solve K s primaryDim)
   \<and> scheme_secondaryDim solve K (catalogueColors K) s = Inr (getArgb solve K s secondaryDim)
   \<and> scheme_tertiaryDim solve K (catalogueColors K) s = Inr (getArgb solve K s (tertiaryDim K))
   \<and> scheme_errorDim solve K (catalogueColors K) s = Inr (getArgb solve K s (errorDim K))"
  by (simp add: scheme_primaryDim_def scheme_secondaryDim_def scheme_tertiaryDim_def
      scheme_errorDim_def catalogueColors_def)

text \<open>
  Claim C3 says that on a scheme of the 2021 baseline, which does not define the dim roles,
  reading \<open>primaryDim\<close>, \<open>secondaryDim\<close>, \<open>tertiaryDim\<close> or \<open>errorDim\<close> raises an error that
  names the role. The getters have the guard and say so in their message ("... is undefined
  prior to 2025 spec."), but the lookup they test does not know the spec version of the
  scheme. With the catalogue of the sources the four getters return a pixel on
  \<open>lightScheme\<close>, a scheme constructed with spec version \<open>'2021'\<close>: the tones 85, 85, 96 and 9
  of the 2025 dim colours.
\<close>

theorem dim_getters_return_on_2021_scheme:
  "specVersion lightScheme = V2021
   \<and> scheme_primaryDim plainSolve tentExt (catalogueColors tentExt) lightScheme = Inr 85
   \<and> scheme_secondaryDim plainSolve tentExt (catalogueColors tentExt) lightScheme = Inr 85
   \<and> scheme_tertiaryDim plainSolve tentExt (catalogueColors tentExt) lightScheme = Inr 96
   \<and> scheme_errorDim plainSolve tentExt (catalogueColors tentExt) lightScheme = Inr 9"
proof -
  have v: "specVersion lightScheme = V2021"
    by (simp add: lightScheme_def DynamicScheme_def Let_def seedOptions_def nullish_def)
  have pt: "tertiaryPalette lightScheme = fromHueAndChroma tentExt 300 16"
    and pe: "errorPalette lightScheme = fromHueAndChroma tentExt 25 84"
    by (simp_all add: lightScheme_def DynamicScheme_def Let_def seedOptions_def nullish_def
        getSpec_def spec2021_def)
  have t3: "tMaxC tentExt (fromHueAndChroma tentExt 300 16) 0 100 1 = 96"
    by (simp add: fromHueAndChroma_def tMaxC_def clampDouble_def search_eval)
  have t4: "tMinC tentExt (fromHueAndChroma tentExt 25 84) 0 100 = 9"
    by (simp add: fromHueAndChroma_def tMinC_def clampDouble_def search_eval)
  have g1: "getArgb plainSolve tentExt lightScheme primaryDim = 85"
    by (simp add: getArgb_def resolve_def plainSolve_def primaryDim_def colorOf_def
        clampDouble_def Let_def)
  have g2: "getArgb plainSolve tentExt lightScheme secondaryDim = 85"
    by (simp add: getArgb_def resolve_def plainSolve_def secondaryDim_def colorOf_def
        clampDouble_def Let_def)
  have g3: "getArgb plainSolve tentExt lightScheme (tertiaryDim tentExt) = 96"
    by (simp add: getArgb_def resolve_def plainSolve_def tertiaryDim_def colorOf_def
        clampDouble_def Let_def pt t3)
  have g4: "getArgb plainSolve tentExt lightScheme (errorDim tentExt) = 9"
    by (simp add: getArgb_def resolve_def plainSolve_def errorDim_def colorOf_def
        clampDouble_def Let_def pe t4)
  show ?thesis
    using v g1 g2 g3 g4
    by (simp add: scheme_primaryDim_def scheme_secondaryDim_def scheme_tertiaryDim_def
        scheme_errorDim_def catalogueColors_def)
qed

section \<open>The catalogue: surfaces, multipliers, aliases and names\<close>

lemmas catalogue_defs =
  colorOf_def clone_def
  primaryPaletteKeyColor_def secondaryPaletteKeyColor_def tertiaryPaletteKeyColor_def
  neutralPaletteKeyColor_def neutralVariantPaletteKeyColor_def errorPaletteKeyColor_def
  background2025_def onBackground_def surface_def surfaceDim_def surfaceBright_def
  surfaceContainerLowest_def surfaceContainerLow_def surfaceContainer_def
  surfaceContainerHigh_def surfaceContainerHighest_def onSurface_def surfaceVariant_def
  onSurfaceVariant_def inverseSurface_def inverseOnSurface_def outline_def outlineVariant_def
  shadow_def scrim_def surfaceTint_def
  primary_def primaryDim_def onPrimary_def primaryContainer_def onPrimaryContainer_def
  inversePrimary_def
  secondary_def secondaryDim_def onSecondary_def secondaryContainer_def
  onSecondaryContainer_def
  tertiary_def tertiaryDim_def onTertiary_def tertiaryContainer_def onTertiaryContainer_def
  error_def errorDim_def onError_def errorContainer_def onErrorContainer_def
  primaryFixed_def primaryFixedDim_def onPrimaryFixed_def onPrimaryFixedVariant_def
  secondaryFixed_def secondaryFixedDim_def onSecondaryFixed_def onSecondaryFixedVariant_def
  tertiaryFixed_def tertiaryFixedDim_def onTertiaryFixed_def onTertiaryFixedVariant_def

text \<open>
  The 59 names of the catalogue are pairwise distinct: a name stands for one role, so a
  colour of the catalogue is at most one member of a pair.
\<close>

lemma roleNames_lookup: "map_of roleNames (name (colorSpec2025 K r)) = Some r"
  by (cases r) (simp_all add: roleNames_def catalogue_defs)

lemma name_inj: "name (colorSpec2025 K r) = name (colorSpec2025 K r') \<Longrightarrow> r = r'"
  by (metis roleNames_lookup option.inject)

lemma isDark_schemes: "\<not> isDark lightScheme" "isDark darkScheme"
  by (simp_all add: lightScheme_def darkScheme_def DynamicScheme_def Let_def seedOptions_def)

subsection \<open>Claim C5\<close>

text \<open>
  Claim C5: for every scheme \<open>s\<close>, \<open>highestSurface(s)\<close> is the colour \<open>surface_bright\<close> when
  \<open>s.isDark\<close> and the colour \<open>surface_dim\<close> otherwise. Among the surface roles (\<open>surface\<close>,
  \<open>surface_dim\<close>, \<open>surface_bright\<close> and the five \<open>surface_container\<close> roles) its tone rule
  gives the largest tone in dark mode and the smallest tone in light mode, whatever
  \<open>Hct.isYellow\<close> answers.
\<close>

theorem highestSurface_brightest_or_dimmest:
  "colorSpec2025 K (highestSurface s) = (if isDark s then surfaceBright K else surfaceDim K)
   \<and> name (colorSpec2025 K (highestSurface s)) = (if isDark s then ''surface_bright'' else ''surface_dim'')
   \<and> (\<forall>r\<in>surfaceRoles. \<exists>f g. dynamic_color.tone (colorSpec2025 K r) = Some f
          \<and> dynamic_color.tone (colorSpec2025 K (highestSurface s)) = Some g
          \<and> (isDark s \<longrightarrow> f s \<le> g s) \<and> (\<not> isDark s \<longrightarrow> g s \<le> f s))"
  by (simp add: highestSurface_def surfaceRoles_def catalogue_defs)

theorem highestSurface_brightest_or_dimmest_witness:
  "SurfaceContainerHighest \<in> surfaceRoles
   \<and> name (colorSpec2025 tentExt (highestSurface darkScheme)) = ''surface_bright''
   \<and> name (colorSpec2025 tentExt (highestSurface lightScheme)) = ''surface_dim''
   \<and> (\<exists>f g. dynamic_color.tone (colorSpec2025 tentExt SurfaceContainerHighest) = Some f
          \<and> dynamic_color.tone (colorSpec2025 tentExt (highestSurface darkScheme)) = Some g
          \<and> f darkScheme \<le> g darkScheme)"
proof -
  have m: "SurfaceContainerHighest \<in> surfaceRoles" by (simp add: surfaceRoles_def)
  from highestSurface_brightest_or_dimmest[of tentExt darkScheme] m isDark_schemes(2)
  have "name (colorSpec2025 tentExt (highestSurface darkScheme)) = ''surface_bright''"
    and "\<exists>f g. dynamic_color.tone (colorSpec2025 tentExt SurfaceContainerHighest) = Some f
          \<and> dynamic_color.tone (colorSpec2025 tentExt (highestSurface darkScheme)) = Some g
          \<and> f darkScheme \<le> g darkScheme"
    by auto
  moreover from highestSurface_brightest_or_dimmest[of tentExt lightScheme, THEN conjunct2, THEN conjunct1] isDark_schemes(1)
  have "name (colorSpec2025 tentExt (highestSurface lightScheme)) = ''surface_dim''"
    by simp
  ultimately show ?thesis using m by simp
qed

lemma multiplier_default:
  "r \<notin> multiplierRoles \<Longrightarrow> chromaMultiplier (colorSpec2025 K r) = None"
  by (cases r) (simp_all add: multiplierRoles_def catalogue_defs)

lemma multiplier_roles:
  "r \<in> multiplierRoles \<Longrightarrow>
     r \<in> surfaceSection \<and> palette (colorSpec2025 K r) = neutralPalette
     \<and> (chromaMultiplierOf (colorSpec2025 K r) lightScheme \<noteq> 1
         \<or> chromaMultiplierOf (colorSpec2025 K r) darkScheme \<noteq> 1)"
  by (auto simp: multiplierRoles_def surfaceSection_def catalogue_defs chromaMultiplierOf_def
      isDark_schemes)

subsection \<open>Claim C7\<close>

text \<open>
  Claim C7: in the 2025 catalogue the roles whose chroma multiplier differs from 1 for
  some scheme are exactly twelve roles of the surface section, each on the neutral
  palette: \<open>surface_dim\<close>, \<open>surface_bright\<close>, four \<open>surface_container\<close> roles,
  \<open>on_surface\<close>, \<open>on_surface_variant\<close>, \<open>outline\<close>, \<open>outline_variant\<close>, and the aliases
  \<open>surface_variant\<close> and \<open>on_background\<close>. Every other role has no chroma-multiplier
  selector and so the default multiplier 1 for every scheme.
\<close>

theorem chroma_multiplier_only_neutral_surfaces:
  "(r \<in> multiplierRoles \<longleftrightarrow> (\<exists>s. chromaMultiplierOf (colorSpec2025 K r) s \<noteq> 1))
   \<and> (r \<in> multiplierRoles \<longrightarrow>
        r \<in> surfaceSection \<and> palette (colorSpec2025 K r) = neutralPalette)
   \<and> (r \<notin> multiplierRoles \<longrightarrow>
        chromaMultiplier (colorSpec2025 K r) = None
        \<and> (\<forall>s. chromaMultiplierOf (colorSpec2025 K r) s = 1))"
proof (cases "r \<in> multiplierRoles")
  case True
  from multiplier_roles[OF this, of K] show ?thesis using True by blast
next
  case False
  from multiplier_default[OF this, of K] show ?thesis
    using False by (simp add: chromaMultiplierOf_def)
qed

theorem chroma_multiplier_only_neutral_surfaces_witness:
  "Primary \<notin> multiplierRoles \<and> chromaMultiplierOf (colorSpec2025 tentExt Primary) lightScheme = 1
   \<and> SurfaceDim \<in> multiplierRoles \<and> SurfaceDim \<in> surfaceSection
   \<and> palette (colorSpec2025 tentExt SurfaceDim) = neutralPalette
   \<and> chromaMultiplierOf (colorSpec2025 tentExt SurfaceDim) lightScheme = 2.5"
proof -
  have a: "Primary \<notin> multiplierRoles" "SurfaceDim \<in> multiplierRoles"
    by (simp_all add: multiplierRoles_def)
  from chroma_multiplier_only_neutral_surfaces[of Primary tentExt] a(1)
  have "chromaMultiplierOf (colorSpec2025 tentExt Primary) lightScheme = 1" by blast
  moreover from chroma_multiplier_only_neutral_surfaces[of SurfaceDim tentExt] a(2)
  have "SurfaceDim \<in> surfaceSection \<and> palette (colorSpec2025 tentExt SurfaceDim) = neutralPalette"
    by blast
  moreover have "chromaMultiplierOf (colorSpec2025 tentExt SurfaceDim) lightScheme = 2.5"
    by (simp add: chromaMultiplierOf_def surfaceDim_def colorOf_def isDark_schemes)
  ultimately show ?thesis using a by simp
qed

subsection \<open>Claim C4\<close>







end
